theory Spec2Isabelle
  imports Main
begin

section \<open>JavaScript values\<close>

text \<open>
  The payloads exchanged with the air conditioner are parsed JSON. Numbers are modelled
  as integers (account counts and enumerated codes; measured values are only copied).
  An object is an association list in insertion order; the first binding of a key is
  the one a lookup sees.
\<close>

datatype jsval =
    JUndefined
  | JNull
  | JBool bool
  | JNum int
  | JStr string
  | JObj "(string \<times> jsval) list"

text \<open>The result of \<open>Number(...)\<close>: an integer or \<open>NaN\<close>.\<close>

datatype jsnum = Num int | NaN

text \<open>
  A thrown exception. \<open>Error m\<close> is \<open>new Error(m)\<close> of the program or of the transport
  client, \<open>TypeError m\<close> is raised by the engine; both carry \<open>err.message\<close>.
\<close>

datatype exn = Error string | TypeError string

fun message :: "exn \<Rightarrow> string" where
  "message (Error m) = m"
| "message (TypeError m) = m"

datatype outcome = Returned | Threw exn

definition quote :: string where
  "quote = [CHR 0x27]"

fun truthy :: "jsval \<Rightarrow> bool" where
  "truthy JUndefined = False"
| "truthy JNull = False"
| "truthy (JBool b) = b"
| "truthy (JNum n) = (n \<noteq> 0)"
| "truthy (JStr s) = (s \<noteq> [])"
| "truthy (JObj al) = True"

definition obj_get :: "(string \<times> jsval) list \<Rightarrow> string \<Rightarrow> jsval" where
  "obj_get al k = (case map_of al k of None \<Rightarrow> JUndefined | Some v \<Rightarrow> v)"

text \<open>\<open>v.k\<close>: reading a property of \<open>undefined\<close> or \<open>null\<close> throws; a primitive has
  none of the properties read by this program.\<close>

fun js_get :: "jsval \<Rightarrow> string \<Rightarrow> exn + jsval" where
  "js_get JUndefined k =
     Inl (TypeError (''Cannot read properties of undefined (reading '' @ quote @ k @ quote @ '')''))"
| "js_get JNull k =
     Inl (TypeError (''Cannot read properties of null (reading '' @ quote @ k @ quote @ '')''))"
| "js_get (JObj al) k = Inr (obj_get al k)"
| "js_get v k = Inr JUndefined"

text \<open>\<open>k in v\<close>: throws unless \<open>v\<close> is an object.\<close>

fun js_in :: "string \<Rightarrow> jsval \<Rightarrow> exn + bool" where
  "js_in k (JObj al) = Inr (k \<in> set (map fst al))"
| "js_in k v =
     Inl (TypeError (''Cannot use '' @ quote @ ''in'' @ quote @ '' operator to search for ''
                       @ quote @ k @ quote))"

text \<open>\<open>delete v.k\<close>: removes the key of an object, does nothing to a primitive.\<close>

fun js_delete :: "jsval \<Rightarrow> string \<Rightarrow> jsval" where
  "js_delete (JObj al) k = JObj (filter (\<lambda>p. fst p \<noteq> k) al)"
| "js_delete v k = v"

text \<open>\<open>obj[k] = v\<close> on an association list: an existing key keeps its place.\<close>

fun obj_set :: "(string \<times> jsval) list \<Rightarrow> string \<Rightarrow> jsval \<Rightarrow> (string \<times> jsval) list" where
  "obj_set [] k v = [(k, v)]"
| "obj_set (p # al) k v = (if fst p = k then (k, v) # al else p # obj_set al k v)"

text \<open>\<open>target[k] = v\<close> in strict mode: throws on \<open>undefined\<close>, \<open>null\<close> and on a
  primitive.\<close>

fun js_set :: "jsval \<Rightarrow> string \<Rightarrow> jsval \<Rightarrow> exn + jsval" where
  "js_set (JObj al) k v = Inr (JObj (obj_set al k v))"
| "js_set JUndefined k v =
     Inl (TypeError (''Cannot set properties of undefined (setting '' @ quote @ k @ quote @ '')''))"
| "js_set JNull k v =
     Inl (TypeError (''Cannot set properties of null (setting '' @ quote @ k @ quote @ '')''))"
| "js_set t k v =
     Inl (TypeError (''Cannot create property '' @ quote @ k @ quote))"

subsection \<open>Conversions\<close>

text \<open>Decimal notation, as \<open>String(n)\<close> prints an integer.\<close>

fun decimal :: "nat \<Rightarrow> string" where
  "decimal n =
     (if n div 10 = 0 then [] else decimal (n div 10)) @ [''0123456789'' ! (n mod 10)]"

declare decimal.simps [simp del]

definition string_of_int :: "int \<Rightarrow> string" where
  "string_of_int i = (if i < 0 then CHR ''-'' # decimal (nat (- i)) else decimal (nat i))"

fun string_of_jsnum :: "jsnum \<Rightarrow> string" where
  "string_of_jsnum (Num n) = string_of_int n"
| "string_of_jsnum NaN = ''NaN''"

text \<open>Template-literal conversion \<open>`${v}`\<close>.\<close>

fun js_String :: "jsval \<Rightarrow> string" where
  "js_String JUndefined = ''undefined''"
| "js_String JNull = ''null''"
| "js_String (JBool b) = (if b then ''true'' else ''false'')"
| "js_String (JNum n) = string_of_int n"
| "js_String (JStr s) = s"
| "js_String (JObj al) = ''[object Object]''"

definition digit_of :: "char \<Rightarrow> nat option" where
  "digit_of c =
     (if 48 \<le> (of_char c :: nat) \<and> (of_char c :: nat) \<le> 57
      then Some (of_char c - 48) else None)"

fun parse_digits :: "nat \<Rightarrow> string \<Rightarrow> jsnum" where
  "parse_digits acc [] = Num (int acc)"
| "parse_digits acc (c # cs) =
     (case digit_of c of None \<Rightarrow> NaN | Some d \<Rightarrow> parse_digits (10 * acc + d) cs)"

text \<open>
  \<open>Number(v)\<close>. A string converts when it is empty or consists of decimal digits; the
  other numeric spellings of JavaScript (sign, fraction, exponent, radix prefix,
  surrounding blanks) lie outside the integer model and read as \<open>NaN\<close> here.
\<close>

fun to_number :: "jsval \<Rightarrow> jsnum" where
  "to_number JUndefined = NaN"
| "to_number JNull = Num 0"
| "to_number (JBool b) = Num (if b then 1 else 0)"
| "to_number (JNum n) = Num n"
| "to_number (JStr s) = parse_digits 0 s"
| "to_number (JObj al) = NaN"

subsection \<open>Helpers of \<open>lib/Utils\<close>\<close>

text \<open>
  Modelled from the spec: \<open>blank\<close> and \<open>filled\<close> are imported from \<open>lib/Utils\<close>, which is
  not among the sources. The specification speaks of a result that is "empty/blank" and
  of fields that are "non-empty": a value is blank when it is \<open>undefined\<close>, \<open>null\<close>, the
  empty string or an object without keys, and filled otherwise.
\<close>

fun blank :: "jsval \<Rightarrow> bool" where
  "blank JUndefined = True"
| "blank JNull = True"
| "blank (JStr s) = (s = [])"
| "blank (JObj al) = (al = [])"
| "blank v = False"

definition filled :: "jsval \<Rightarrow> bool" where
  "filled v = (\<not> blank v)"

section \<open>The device session and its collaborators\<close>

text \<open>The requests that reach the transport client, in the order they are made.\<close>

datatype call = GetAirconStat | SetAirconStat jsval | UpdateAccountInfo

text \<open>
  Everything the program consumes from outside: the replies of the transport client
  (as functions of the requests made so far; \<open>Inl\<close> or \<open>Some\<close> is a rejected promise),
  the localisation function \<open>homey.__\<close>, and the tables of \<open>lib/Enums\<close>, which are not among
  the sources and are taken as parameters (\<open>T[k]\<close> is \<open>T k\<close>).
\<close>

record world =
  getAirconStat_reply :: "call list \<Rightarrow> exn + jsval"
  setAirconStat_reply :: "call list \<Rightarrow> jsval \<Rightarrow> exn + jsval"
  updateAccountInfo_reply :: "call list \<Rightarrow> exn option"
  homey_tr :: "string \<Rightarrow> (string \<times> jsval) list \<Rightarrow> string"
  AirFlow :: "jsval \<Rightarrow> jsval"
  HorizontalPosition :: "jsval \<Rightarrow> jsval"
  OperationMode :: "jsval \<Rightarrow> jsval"
  VerticalPosition :: "jsval \<Rightarrow> jsval"
  AirFlowNames :: "jsval \<Rightarrow> jsval"
  HorizontalPositionNames :: "jsval \<Rightarrow> jsval"
  OperationModeNames :: "jsval \<Rightarrow> jsval"
  VerticalPositionNames :: "jsval \<Rightarrow> jsval"

text \<open>
  The instance fields of \<open>Device\<close> together with the host state the program reads and
  writes: availability, the warning banner, capability values, settings, and the
  messages passed to \<open>this.error\<close>. \<open>accounts\<close> is \<open>None\<close> for \<open>null\<close>.
\<close>

record device =
  registered :: bool
  available :: bool
  unavailable_message :: "string option"
  accounts :: "jsnum option"
  firmware :: jsval
  contents :: jsval
  airconStat :: jsval
  capability_ids :: "string list"
  capabilities :: "string \<rightharpoonup> jsval"
  settings :: "string \<rightharpoonup> jsval"
  warning :: "string option"
  errors :: "string list"
  calls :: "call list"

subsection \<open>Host operations\<close>

definition getAvailable :: "device \<Rightarrow> bool" where
  "getAvailable s = available s"

definition setAvailable :: "device \<Rightarrow> device" where
  "setAvailable s = s\<lparr>available := True, unavailable_message := None\<rparr>"

definition setUnavailable :: "string \<Rightarrow> device \<Rightarrow> device" where
  "setUnavailable msg s = s\<lparr>available := False, unavailable_message := Some msg\<rparr>"

definition setWarning :: "string \<Rightarrow> device \<Rightarrow> device" where
  "setWarning msg s = s\<lparr>warning := Some msg\<rparr>"

definition unsetWarning :: "device \<Rightarrow> device" where
  "unsetWarning s = s\<lparr>warning := None\<rparr>"

definition log_error :: "string \<Rightarrow> device \<Rightarrow> device" where
  "log_error msg s = s\<lparr>errors := errors s @ [msg]\<rparr>"

definition hasCapability :: "device \<Rightarrow> string \<Rightarrow> bool" where
  "hasCapability s c = (c \<in> set (capability_ids s))"

definition setCapabilityValue :: "string \<Rightarrow> jsval \<Rightarrow> device \<Rightarrow> device" where
  "setCapabilityValue c v s = s\<lparr>capabilities := (capabilities s)(c \<mapsto> v)\<rparr>"

text \<open>\<open>setSettings\<close> overwrites the given keys and keeps the others.\<close>

definition setSettings :: "(string \<times> jsval) list \<Rightarrow> device \<Rightarrow> device" where
  "setSettings al s = s\<lparr>settings := settings s ++ map_of al\<rparr>"

definition record_call :: "call \<Rightarrow> device \<Rightarrow> device" where
  "record_call c s = s\<lparr>calls := calls s @ [c]\<rparr>"

text \<open>Sequencing of awaited steps: a throw skips what follows.\<close>

definition and_then ::
  "outcome \<times> device \<Rightarrow> (device \<Rightarrow> outcome \<times> device) \<Rightarrow> outcome \<times> device" where
  "and_then r f = (case fst r of Returned \<Rightarrow> f (snd r) | Threw e \<Rightarrow> (Threw e, snd r))"

section \<open>Synchronisation (\<open>drivers/wfrac/device.js\<close>, \<open>lib/Device.js\<close>)\<close>

text \<open>Truthiness and comparisons of \<open>this.accounts\<close>, a number or \<open>null\<close>.\<close>

fun num_truthy :: "jsnum option \<Rightarrow> bool" where
  "num_truthy None = False"
| "num_truthy (Some NaN) = False"
| "num_truthy (Some (Num n)) = (n \<noteq> 0)"

fun num_less :: "jsnum option \<Rightarrow> int \<Rightarrow> bool" where
  "num_less None k = (0 < k)"
| "num_less (Some NaN) k = False"
| "num_less (Some (Num n)) k = (n < k)"

fun num_greater :: "jsnum option \<Rightarrow> int \<Rightarrow> bool" where
  "num_greater None k = (k < 0)"
| "num_greater (Some NaN) k = False"
| "num_greater (Some (Num n)) k = (k < n)"

text \<open>\<open>setRegistered(registered)\<close> with an explicit argument; the copy kept in the host's
  store is not read again by the operations modelled here.\<close>

definition setRegistered :: "bool \<Rightarrow> device \<Rightarrow> device" where
  "setRegistered b s = s\<lparr>registered := b\<rparr>"

text \<open>\<open>getAccountWarning\<close>: the message key, or \<open>None\<close> for \<open>null\<close>.\<close>

definition getAccountWarning :: "device \<Rightarrow> string option" where
  "getAccountWarning s =
     (if registered s then None
      else if \<not> num_truthy (accounts s) then None
      else if num_greater (accounts s) 3 then Some ''warning.accounts''
      else Some ''warning.unregistered'')"

text \<open>\<open>setFirmwareWarning\<close>: the returned flag and the new state.\<close>

definition setFirmwareWarning :: "world \<Rightarrow> device \<Rightarrow> bool \<times> device" where
  "setFirmwareWarning w s =
     (if \<not> truthy (firmware s) then (False, s)
      else if firmware s = JStr ''WF-RAC'' then (False, s)
      else (True,
            setWarning (homey_tr w ''warning.firmware'' [(''firmware'', firmware s)])
              (log_error (''Firmware '' @ quote @ js_String (firmware s) @ quote
                            @ '' is not supported'') s)))"

definition registerAccount :: "world \<Rightarrow> device \<Rightarrow> outcome \<times> device" where
  "registerAccount w s =
     (if \<not> getAvailable s then (Returned, s)
      else (case updateAccountInfo_reply w (calls s) of
              Some e \<Rightarrow> (Threw e, record_call UpdateAccountInfo s)
            | None \<Rightarrow> (Returned, setRegistered True (record_call UpdateAccountInfo s))))"

definition syncAccount :: "world \<Rightarrow> device \<Rightarrow> outcome \<times> device" where
  "syncAccount w s =
     (if registered s then (Returned, s)
      else if \<not> getAvailable s then (Returned, s)
      else if \<not> num_truthy (accounts s)
        then (Returned, log_error ''[Sync] [Account] Number of accounts not set'' s)
      else and_then
             (if num_less (accounts s) 4 then registerAccount w s else (Returned, s))
             (\<lambda>s1. case getAccountWarning s1 of
                      None \<Rightarrow> (Returned, unsetWarning s1)
                    | Some k \<Rightarrow> (Returned, log_error k (setWarning (homey_tr w k []) s1))))"

text \<open>
  \<open>syncAirconStat\<close> once the payload is at hand (passed in or fetched): from the
  \<open>blank\<close> test on. The fields assigned before a throw keep their new values.
\<close>

definition store_payload :: "jsval \<Rightarrow> device \<Rightarrow> outcome \<times> device" where
  "store_payload d s =
     (if blank d then (Returned, s)
      else (case js_get d ''airconStat'' of
              Inl e \<Rightarrow> (Threw e, setAvailable s)
            | Inr st \<Rightarrow>
               (let s1 = (setAvailable s)\<lparr>airconStat := st,
                                             contents := js_delete d ''airconStat''\<rparr>
                in case js_in ''numOfAccount'' d of
                     Inl e \<Rightarrow> (Threw e, s1)
                   | Inr has_n \<Rightarrow>
                      (let s2 = s1\<lparr>accounts :=
                                     (if has_n then Some (to_number (obj_get
                                        (case d of JObj al \<Rightarrow> al | _ \<Rightarrow> []) ''numOfAccount''))
                                      else None)\<rparr>
                       in case js_in ''firmType'' d of
                            Inl e \<Rightarrow> (Threw e, s2)
                          | Inr has_f \<Rightarrow>
                             (Returned,
                              s2\<lparr>firmware :=
                                   (if has_f then obj_get
                                      (case d of JObj al \<Rightarrow> al | _ \<Rightarrow> []) ''firmType''
                                    else JNull)\<rparr>)))))"

definition syncAirconStat :: "world \<Rightarrow> jsval \<Rightarrow> device \<Rightarrow> outcome \<times> device" where
  "syncAirconStat w data s =
     (if \<not> truthy data
      then (case getAirconStat_reply w (calls s) of
              Inl e \<Rightarrow> (Threw e, record_call GetAirconStat s)
            | Inr d \<Rightarrow> store_payload d (record_call GetAirconStat s))
      else store_payload data s)"

text \<open>One guarded update of \<open>syncCapabilities\<close>:
  \<open>if (field in stat && this.hasCapability(guard)) this.setCapabilityValue(target, conv(stat[field]))\<close>.\<close>

definition sync_capability ::
  "(string \<times> jsval) list \<Rightarrow> string \<Rightarrow> string \<Rightarrow> string \<Rightarrow> (jsval \<Rightarrow> jsval)
     \<Rightarrow> device \<Rightarrow> device" where
  "sync_capability stat field guard target conv s =
     (if field \<in> set (map fst stat) \<and> hasCapability s guard
      then setCapabilityValue target (conv (obj_get stat field)) s
      else s)"

definition syncCapabilities :: "world \<Rightarrow> device \<Rightarrow> outcome \<times> device" where
  "syncCapabilities w s =
     (if \<not> truthy (airconStat s) then (Returned, s)
      else (case airconStat s of
              JObj stat \<Rightarrow>
                (Returned,
                 (sync_capability stat ''windDirectionUD'' ''vertical_position''
                      ''vertical_position'' (VerticalPosition w)
                  \<circ> sync_capability stat ''presetTemp'' ''target_temperature''
                      ''target_temperature'' id
                  \<circ> sync_capability stat ''outdoorTemp'' ''measure_temperature''
                      ''measure_temperature.outdoor'' id
                  \<circ> sync_capability stat ''operationMode'' ''operating_mode''
                      ''operating_mode'' (OperationMode w)
                  \<circ> sync_capability stat ''operation'' ''onoff'' ''onoff'' id
                  \<circ> sync_capability stat ''indoorTemp'' ''measure_temperature''
                      ''measure_temperature'' id
                  \<circ> sync_capability stat ''windDirectionLR'' ''horizontal_position''
                      ''horizontal_position'' (HorizontalPosition w)
                  \<circ> sync_capability stat ''airFlow'' ''fan_speed'' ''fan_speed'' (AirFlow w)
                  \<circ> sync_capability stat ''entrust'' ''3d_auto'' ''3d_auto'' id) s)
            | v \<Rightarrow>
                (case js_in ''entrust'' v of
                   Inl e \<Rightarrow> (Threw e, s)
                 | Inr b \<Rightarrow> (Returned, s))))"

text \<open>The settings object built by \<open>syncSettings\<close>, one optional entry at a time.\<close>

definition entry_if :: "bool \<Rightarrow> string \<Rightarrow> jsval \<Rightarrow> (string \<times> jsval) list" where
  "entry_if b k v = (if b then [(k, v)] else [])"

definition syncSettings :: "world \<Rightarrow> device \<Rightarrow> outcome \<times> device" where
  "syncSettings w s =
     (if \<not> truthy (contents s) then (Returned, s)
      else (case js_get (contents s) ''wireless'' of
              Inl e \<Rightarrow> (Threw e, s)
            | Inr wl \<Rightarrow>
          (case js_get wl ''firmVer'' of
              Inl e \<Rightarrow> (Threw e, s)
            | Inr wv \<Rightarrow>
          (case js_get (contents s) ''mcu'' of
              Inl e \<Rightarrow> (Threw e, s)
            | Inr mc \<Rightarrow>
          (case js_get mc ''firmVer'' of
              Inl e \<Rightarrow> (Threw e, s)
            | Inr mv \<Rightarrow>
               (let new_settings =
                      entry_if (num_truthy (accounts s)) ''accounts''
                        (JStr (case accounts s of Some n \<Rightarrow> string_of_jsnum n | None \<Rightarrow> ''null''))
                      @ entry_if (filled (firmware s)) ''firmware_type'' (firmware s)
                      @ entry_if (filled wv) ''wifi_firmware'' wv
                      @ entry_if (filled mv) ''mcu_firmware'' mv;
                    s1 = (if filled (JObj new_settings) then setSettings new_settings s else s);
                    fw = setFirmwareWarning w s1
                in if fst fw then (Returned, snd fw)
                   else (Returned, unsetWarning (snd fw))))))))"

text \<open>The body of the \<open>try\<close> block of \<open>sync\<close>, and \<open>sync\<close> with its \<open>catch\<close>.\<close>

definition sync_steps :: "world \<Rightarrow> jsval \<Rightarrow> device \<Rightarrow> outcome \<times> device" where
  "sync_steps w data s =
     and_then (and_then (and_then (syncAirconStat w data s) (syncCapabilities w))
                 (syncSettings w))
       (syncAccount w)"

definition sync_failed :: "world \<Rightarrow> exn \<Rightarrow> device \<Rightarrow> device" where
  "sync_failed w e s =
     setUnavailable (homey_tr w (message e) []) (log_error (''Sync error: '' @ message e) s)"

definition sync :: "world \<Rightarrow> jsval \<Rightarrow> device \<Rightarrow> outcome \<times> device" where
  "sync w data s =
     (case fst (sync_steps w data s) of
        Returned \<Rightarrow> (Returned, snd (sync_steps w data s))
      | Threw e \<Rightarrow> (Returned, sync_failed w e (snd (sync_steps w data s))))"

section \<open>Commands\<close>

text \<open>The loop over \<open>Object.entries(properties)\<close>: the value reached, and the exception
  that stopped the loop, if any.\<close>

fun assign_all :: "(string \<times> jsval) list \<Rightarrow> jsval \<Rightarrow> exn option \<times> jsval" where
  "assign_all [] t = (None, t)"
| "assign_all (p # ps) t =
     (case js_set t (fst p) (snd p) of
        Inl e \<Rightarrow> (Some e, t)
      | Inr t' \<Rightarrow> assign_all ps t')"

definition send_update :: "world \<Rightarrow> device \<Rightarrow> outcome \<times> device" where
  "send_update w s =
     (case setAirconStat_reply w (calls s) (airconStat s) of
        Inl e \<Rightarrow> (Threw e, record_call (SetAirconStat (airconStat s)) s)
      | Inr result \<Rightarrow> sync w result (record_call (SetAirconStat (airconStat s)) s))"

definition update_steps ::
  "world \<Rightarrow> (string \<times> jsval) list \<Rightarrow> device \<Rightarrow> outcome \<times> device" where
  "update_steps w properties s =
     (if \<not> registered s
      then (Threw (Error (case getAccountWarning s of None \<Rightarrow> ''null'' | Some k \<Rightarrow> k)), s)
      else and_then (syncAirconStat w JNull s)
             (\<lambda>s1. case fst (assign_all properties (airconStat s1)) of
                      Some e \<Rightarrow> (Threw e, s1\<lparr>airconStat := snd (assign_all properties (airconStat s1))\<rparr>)
                    | None \<Rightarrow>
                        send_update w
                          (s1\<lparr>airconStat := snd (assign_all properties (airconStat s1))\<rparr>)))"

definition updateDevice ::
  "world \<Rightarrow> (string \<times> jsval) list \<Rightarrow> device \<Rightarrow> outcome \<times> device" where
  "updateDevice w properties s =
     (if \<not> getAvailable s
      then (Returned, log_error ''Update device: Device not available'' s)
      else (case fst (update_steps w properties s) of
              Returned \<Rightarrow> (Returned, snd (update_steps w properties s))
            | Threw e \<Rightarrow>
                (Threw (Error (homey_tr w (message e) [])),
                 log_error (''Update error: '' @ message e) (snd (update_steps w properties s)))))"

text \<open>
  Modelled from the spec: \<open>queue\<close> is called by every capability listener but defined in
  neither of the two source files. The specification's command dispatcher "receives
  capability-change requests, merges them into a single outgoing state patch, sends it to
  the device": the patch of a listener is handed to \<open>updateDevice\<close>.
\<close>

definition queue :: "world \<Rightarrow> (string \<times> jsval) list \<Rightarrow> device \<Rightarrow> outcome \<times> device" where
  "queue w patch s = updateDevice w patch s"

definition onCapabilityFanSpeed :: "world \<Rightarrow> jsval \<Rightarrow> device \<Rightarrow> outcome \<times> device" where
  "onCapabilityFanSpeed w v s = queue w [(''airFlow'', AirFlowNames w v)] s"

definition onCapabilityHorizontalPosition ::
  "world \<Rightarrow> jsval \<Rightarrow> device \<Rightarrow> outcome \<times> device" where
  "onCapabilityHorizontalPosition w v s =
     queue w [(''windDirectionLR'', HorizontalPositionNames w v), (''entrust'', JBool False)] s"

definition onCapability3dAuto :: "world \<Rightarrow> jsval \<Rightarrow> device \<Rightarrow> outcome \<times> device" where
  "onCapability3dAuto w v s = queue w [(''entrust'', v)] s"

definition onCapabilityOnOff :: "world \<Rightarrow> jsval \<Rightarrow> device \<Rightarrow> outcome \<times> device" where
  "onCapabilityOnOff w v s = queue w [(''operation'', v)] s"

definition onCapabilityOperatingMode :: "world \<Rightarrow> jsval \<Rightarrow> device \<Rightarrow> outcome \<times> device" where
  "onCapabilityOperatingMode w v s = queue w [(''operationMode'', OperationModeNames w v)] s"

definition onCapabilityTargetTemperature ::
  "world \<Rightarrow> jsval \<Rightarrow> device \<Rightarrow> outcome \<times> device" where
  "onCapabilityTargetTemperature w v s = queue w [(''presetTemp'', v)] s"

definition onCapabilityVerticalPosition ::
  "world \<Rightarrow> jsval \<Rightarrow> device \<Rightarrow> outcome \<times> device" where
  "onCapabilityVerticalPosition w v s =
     queue w [(''windDirectionUD'', VerticalPositionNames w v), (''entrust'', JBool False)] s"

section \<open>Observations and sample sessions\<close>

text \<open>The payload a synchronisation pass works on: the one handed to \<open>sync\<close>, or the
  reply to the fetch when none (or a falsy one) is handed over.\<close>

definition incoming :: "world \<Rightarrow> jsval \<Rightarrow> device \<Rightarrow> exn + jsval" where
  "incoming w data s = (if truthy data then Inr data else getAirconStat_reply w (calls s))"

text \<open>Whether a payload value is an object with the key \<open>k\<close>, and the value it holds
  there (\<open>undefined\<close> for a missing key and for a value that is no object).\<close>

definition has_field :: "jsval \<Rightarrow> string \<Rightarrow> bool" where
  "has_field v k = (case v of JObj al \<Rightarrow> k \<in> set (map fst al) | _ \<Rightarrow> False)"

definition field_of :: "jsval \<Rightarrow> string \<Rightarrow> jsval" where
  "field_of v k = (case v of JObj al \<Rightarrow> obj_get al k | _ \<Rightarrow> JUndefined)"

text \<open>The field of the control block that \<open>syncCapabilities\<close> reads for each capability
  it sets, in the order of the source.\<close>

definition capability_fields :: "(string \<times> string) list" where
  "capability_fields =
     [(''entrust'', ''3d_auto''), (''airFlow'', ''fan_speed''),
      (''windDirectionLR'', ''horizontal_position''), (''indoorTemp'', ''measure_temperature''),
      (''operation'', ''onoff''), (''operationMode'', ''operating_mode''),
      (''outdoorTemp'', ''measure_temperature.outdoor''),
      (''presetTemp'', ''target_temperature''), (''windDirectionUD'', ''vertical_position'')]"

text \<open>The requests made between two states of one session.\<close>

definition new_calls :: "device \<Rightarrow> device \<Rightarrow> call list" where
  "new_calls s s' = drop (length (calls s)) (calls s')"

text \<open>
  A transport client with fixed replies, a localisation that returns its key and
  identity tables; and the session as \<open>onInit\<close> and \<open>onDiscoveryAvailable\<close> leave it
  before the first synchronisation. They serve as concrete inputs.
\<close>

definition demo_world :: "(exn + jsval) \<Rightarrow> (exn + jsval) \<Rightarrow> exn option \<Rightarrow> world" where
  "demo_world g u a =
     \<lparr>getAirconStat_reply = (\<lambda>tr. g), setAirconStat_reply = (\<lambda>tr m. u),
      updateAccountInfo_reply = (\<lambda>tr. a), homey_tr = (\<lambda>k ps. k),
      AirFlow = id, HorizontalPosition = id, OperationMode = id, VerticalPosition = id,
      AirFlowNames = id, HorizontalPositionNames = id, OperationModeNames = id,
      VerticalPositionNames = id\<rparr>"

definition fresh_device :: "bool \<Rightarrow> device" where
  "fresh_device r =
     \<lparr>registered = r, available = True, unavailable_message = None, accounts = None,
      firmware = JNull, contents = JUndefined, airconStat = JUndefined,
      capability_ids = [''3d_auto'', ''fan_speed'', ''horizontal_position'',
        ''measure_temperature'', ''measure_temperature.outdoor'', ''onoff'', ''operating_mode'',
        ''target_temperature'', ''vertical_position''],
      capabilities = Map.empty, settings = Map.empty, warning = None, errors = [], calls = []\<rparr>"

text \<open>The payload of the specification's scenario, and a payload that also carries the
  two firmware blocks.\<close>

definition scenario_payload :: jsval where
  "scenario_payload =
     JObj [(''airconStat'', JObj [(''operation'', JBool True), (''airFlow'', JNum 2)]),
           (''numOfAccount'', JNum 1), (''firmType'', JStr ''WF-RAC'')]"

definition full_payload :: "jsval \<Rightarrow> int \<Rightarrow> string \<Rightarrow> jsval" where
  "full_payload stat n fw =
     JObj [(''airconStat'', stat), (''numOfAccount'', JNum n), (''firmType'', JStr fw),
           (''wireless'', JObj [(''firmVer'', JStr ''1.0'')]),
           (''mcu'', JObj [(''firmVer'', JStr ''2.0'')])]"

section \<open>Properties\<close>

lemmas host_defs = getAvailable_def setAvailable_def setUnavailable_def setWarning_def
  unsetWarning_def log_error_def hasCapability_def setCapabilityValue_def setSettings_def
  record_call_def setRegistered_def

lemma and_then_simps [simp]:
  "and_then (Returned, s) f = f s"
  "and_then (Threw e, s) f = (Threw e, s)"
  by (simp_all add: and_then_def)

lemma and_then_Threw: "fst r = Threw e \<Longrightarrow> and_then r f = (Threw e, snd r)"
  by (simp add: and_then_def)

lemma and_then_Returned: "fst r = Returned \<Longrightarrow> and_then r f = f (snd r)"
  by (simp add: and_then_def)

subsection \<open>What each step leaves alone\<close>

lemma store_payload_frame:
  "calls (snd (store_payload d s)) = calls s"
  "capabilities (snd (store_payload d s)) = capabilities s"
  "capability_ids (snd (store_payload d s)) = capability_ids s"
  "settings (snd (store_payload d s)) = settings s"
  "registered (snd (store_payload d s)) = registered s"
  "warning (snd (store_payload d s)) = warning s"
  "errors (snd (store_payload d s)) = errors s"
  by (simp_all add: store_payload_def Let_def host_defs split: sum.splits)

lemma syncAirconStat_frame:
  "capabilities (snd (syncAirconStat w data s)) = capabilities s"
  "capability_ids (snd (syncAirconStat w data s)) = capability_ids s"
  "settings (snd (syncAirconStat w data s)) = settings s"
  "registered (snd (syncAirconStat w data s)) = registered s"
  "warning (snd (syncAirconStat w data s)) = warning s"
  "errors (snd (syncAirconStat w data s)) = errors s"
  by (simp_all add: syncAirconStat_def store_payload_frame split: sum.splits)
     (simp_all add: record_call_def)

lemma syncAirconStat_calls:
  "calls (snd (syncAirconStat w data s)) = calls s @ (if truthy data then [] else [GetAirconStat])"
  by (simp add: syncAirconStat_def store_payload_frame split: sum.splits)
     (simp add: record_call_def)

lemma sync_capability_frame:
  "calls (sync_capability st f g t c s) = calls s"
  "capability_ids (sync_capability st f g t c s) = capability_ids s"
  "settings (sync_capability st f g t c s) = settings s"
  "registered (sync_capability st f g t c s) = registered s"
  "available (sync_capability st f g t c s) = available s"
  "unavailable_message (sync_capability st f g t c s) = unavailable_message s"
  "warning (sync_capability st f g t c s) = warning s"
  "errors (sync_capability st f g t c s) = errors s"
  "contents (sync_capability st f g t c s) = contents s"
  "airconStat (sync_capability st f g t c s) = airconStat s"
  "accounts (sync_capability st f g t c s) = accounts s"
  "firmware (sync_capability st f g t c s) = firmware s"
  by (simp_all add: sync_capability_def host_defs)

lemma syncCapabilities_frame:
  "calls (snd (syncCapabilities w s)) = calls s"
  "capability_ids (snd (syncCapabilities w s)) = capability_ids s"
  "settings (snd (syncCapabilities w s)) = settings s"
  "registered (snd (syncCapabilities w s)) = registered s"
  "available (snd (syncCapabilities w s)) = available s"
  "unavailable_message (snd (syncCapabilities w s)) = unavailable_message s"
  "warning (snd (syncCapabilities w s)) = warning s"
  "errors (snd (syncCapabilities w s)) = errors s"
  "contents (snd (syncCapabilities w s)) = contents s"
  "airconStat (snd (syncCapabilities w s)) = airconStat s"
  "accounts (snd (syncCapabilities w s)) = accounts s"
  "firmware (snd (syncCapabilities w s)) = firmware s"
  by (simp_all add: syncCapabilities_def sync_capability_frame split: jsval.splits sum.splits)

lemma setFirmwareWarning_frame:
  "calls (snd (setFirmwareWarning w s)) = calls s"
  "capabilities (snd (setFirmwareWarning w s)) = capabilities s"
  "capability_ids (snd (setFirmwareWarning w s)) = capability_ids s"
  "settings (snd (setFirmwareWarning w s)) = settings s"
  "registered (snd (setFirmwareWarning w s)) = registered s"
  "available (snd (setFirmwareWarning w s)) = available s"
  "unavailable_message (snd (setFirmwareWarning w s)) = unavailable_message s"
  "contents (snd (setFirmwareWarning w s)) = contents s"
  "airconStat (snd (setFirmwareWarning w s)) = airconStat s"
  "accounts (snd (setFirmwareWarning w s)) = accounts s"
  "firmware (snd (setFirmwareWarning w s)) = firmware s"
  by (simp_all add: setFirmwareWarning_def host_defs)

lemma syncSettings_frame:
  "calls (snd (syncSettings w s)) = calls s"
  "capabilities (snd (syncSettings w s)) = capabilities s"
  "capability_ids (snd (syncSettings w s)) = capability_ids s"
  "registered (snd (syncSettings w s)) = registered s"
  "available (snd (syncSettings w s)) = available s"
  "unavailable_message (snd (syncSettings w s)) = unavailable_message s"
  "contents (snd (syncSettings w s)) = contents s"
  "airconStat (snd (syncSettings w s)) = airconStat s"
  "accounts (snd (syncSettings w s)) = accounts s"
  "firmware (snd (syncSettings w s)) = firmware s"
  by (simp_all add: syncSettings_def Let_def setFirmwareWarning_frame unsetWarning_def
        setSettings_def split: sum.splits)

lemma registerAccount_frame:
  "capabilities (snd (registerAccount w s)) = capabilities s"
  "capability_ids (snd (registerAccount w s)) = capability_ids s"
  "settings (snd (registerAccount w s)) = settings s"
  "available (snd (registerAccount w s)) = available s"
  "unavailable_message (snd (registerAccount w s)) = unavailable_message s"
  "contents (snd (registerAccount w s)) = contents s"
  "airconStat (snd (registerAccount w s)) = airconStat s"
  "accounts (snd (registerAccount w s)) = accounts s"
  "firmware (snd (registerAccount w s)) = firmware s"
  "warning (snd (registerAccount w s)) = warning s"
  "errors (snd (registerAccount w s)) = errors s"
  by (simp_all add: registerAccount_def host_defs split: option.splits)

lemma syncAccount_frame:
  "capabilities (snd (syncAccount w s)) = capabilities s"
  "capability_ids (snd (syncAccount w s)) = capability_ids s"
  "settings (snd (syncAccount w s)) = settings s"
  "available (snd (syncAccount w s)) = available s"
  "unavailable_message (snd (syncAccount w s)) = unavailable_message s"
  "contents (snd (syncAccount w s)) = contents s"
  "airconStat (snd (syncAccount w s)) = airconStat s"
  "accounts (snd (syncAccount w s)) = accounts s"
  "firmware (snd (syncAccount w s)) = firmware s"
  by (simp_all add: syncAccount_def and_then_def registerAccount_frame host_defs
        split: option.splits outcome.splits)

lemma sync_failed_frame:
  "calls (sync_failed w e s) = calls s"
  "capabilities (sync_failed w e s) = capabilities s"
  "capability_ids (sync_failed w e s) = capability_ids s"
  "settings (sync_failed w e s) = settings s"
  "registered (sync_failed w e s) = registered s"
  "warning (sync_failed w e s) = warning s"
  "contents (sync_failed w e s) = contents s"
  "airconStat (sync_failed w e s) = airconStat s"
  "accounts (sync_failed w e s) = accounts s"
  "firmware (sync_failed w e s) = firmware s"
  "available (sync_failed w e s) = False"
  "unavailable_message (sync_failed w e s) = Some (homey_tr w (message e) [])"
  by (simp_all add: sync_failed_def host_defs)

lemmas step_defs = sync_def sync_steps_def syncAirconStat_def store_payload_def
  syncCapabilities_def sync_capability_def syncSettings_def syncAccount_def registerAccount_def
  getAccountWarning_def setFirmwareWarning_def sync_failed_def entry_if_def filled_def
  and_then_def obj_get_def Let_def

lemmas demo_defs = demo_world_def fresh_device_def scenario_payload_def full_payload_def

subsection \<open>A payload without firmware blocks\<close>

lemma syncAirconStat_incoming:
  "syncAirconStat w data s =
     (case incoming w data s of
        Inl e \<Rightarrow> (Threw e, record_call GetAirconStat s)
      | Inr d \<Rightarrow> store_payload d (if truthy data then s else record_call GetAirconStat s))"
  by (simp add: syncAirconStat_def incoming_def)

lemma store_payload_object:
  assumes "al \<noteq> []"
  shows "fst (store_payload (JObj al) s) = Returned"
    and "contents (snd (store_payload (JObj al) s)) = JObj (filter (\<lambda>p. fst p \<noteq> ''airconStat'') al)"
    and "airconStat (snd (store_payload (JObj al) s)) = obj_get al ''airconStat''"
    and "available (snd (store_payload (JObj al) s))"
    and "accounts (snd (store_payload (JObj al) s)) =
           (if ''numOfAccount'' \<in> set (map fst al)
            then Some (to_number (obj_get al ''numOfAccount'')) else None)"
    and "firmware (snd (store_payload (JObj al) s)) =
           (if ''firmType'' \<in> set (map fst al) then obj_get al ''firmType'' else JNull)"
  using assms by (simp_all add: store_payload_def Let_def setAvailable_def)

lemma map_of_filter_other:
  "k \<noteq> k' \<Longrightarrow> map_of (filter (\<lambda>p. fst p \<noteq> k') al) k = map_of al k"
  by (induction al) auto

lemma obj_get_absent: "k \<notin> set (map fst al) \<Longrightarrow> obj_get al k = JUndefined"
  by (simp add: obj_get_def map_of_eq_None_iff [THEN iffD2])

lemma js_get_firmVer_absent:
  assumes "contents s = JObj (filter (\<lambda>p. fst p \<noteq> ''airconStat'') al)"
    and "k \<noteq> ''airconStat''" and "k \<notin> set (map fst al)"
  shows "js_get (contents s) k = Inr JUndefined"
proof -
  have "map_of (filter (\<lambda>p. fst p \<noteq> ''airconStat'') al) k = map_of al k"
    using assms(2) by (rule map_of_filter_other)
  moreover have "map_of al k = None"
    using assms(3) by (simp add: map_of_eq_None_iff)
  ultimately show ?thesis
    using assms(1) by (simp add: obj_get_def)
qed

lemma js_get_TypeError: "js_get v k = Inl e \<Longrightarrow> \<exists>m. e = TypeError m"
  by (cases v) auto

lemma syncSettings_throws:
  assumes "contents s = JObj (filter (\<lambda>p. fst p \<noteq> ''airconStat'') al)"
    and "''wireless'' \<notin> set (map fst al) \<or> ''mcu'' \<notin> set (map fst al)"
  shows "\<exists>m. syncSettings w s = (Threw (TypeError m), s)"
proof (cases "''wireless'' \<in> set (map fst al)")
  case False
  then have "js_get (contents s) ''wireless'' = Inr JUndefined"
    using assms(1) by (intro js_get_firmVer_absent [where al = al]) simp_all
  then show ?thesis
    using assms(1) by (simp add: syncSettings_def)
next
  case True
  then have "''mcu'' \<notin> set (map fst al)"
    using assms(2) by blast
  then have "js_get (contents s) ''mcu'' = Inr JUndefined"
    using assms(1) by (intro js_get_firmVer_absent [where al = al]) simp_all
  then show ?thesis
    using assms(1) by (auto simp add: syncSettings_def split: sum.splits dest: js_get_TypeError)
qed

lemma firmware_blocks_missing_abort:
  assumes "incoming w data s = Inr (JObj al)" and "al \<noteq> []"
    and "''wireless'' \<notin> set (map fst al) \<or> ''mcu'' \<notin> set (map fst al)"
  shows "fst (syncAirconStat w data s) = Returned"
    and "fst (syncCapabilities w (snd (syncAirconStat w data s))) = Returned \<Longrightarrow>
         \<exists>m. syncSettings w (snd (syncCapabilities w (snd (syncAirconStat w data s))))
               = (Threw (TypeError m), snd (syncCapabilities w (snd (syncAirconStat w data s))))"
    and "\<exists>e. fst (and_then (and_then (syncAirconStat w data s) (syncCapabilities w))
                    (syncSettings w)) = Threw e"
    and "\<exists>e. snd (sync w data s) =
           sync_failed w e (snd (syncCapabilities w (snd (syncAirconStat w data s))))"
proof -
  let ?s0 = "if truthy data then s else record_call GetAirconStat s"
  let ?r1 = "syncAirconStat w data s"
  have r1: "?r1 = store_payload (JObj al) ?s0"
    using assms(1) by (simp add: syncAirconStat_incoming)
  show ret1: "fst ?r1 = Returned"
    using assms(2) by (simp add: r1 store_payload_object)
  have c1: "contents (snd ?r1) = JObj (filter (\<lambda>p. fst p \<noteq> ''airconStat'') al)"
    using assms(2) by (simp add: r1 store_payload_object)
  let ?r2 = "syncCapabilities w (snd ?r1)"
  have c2: "contents (snd ?r2) = JObj (filter (\<lambda>p. fst p \<noteq> ''airconStat'') al)"
    using c1 by (simp add: syncCapabilities_frame)
  from syncSettings_throws [OF c2 assms(3)]
  obtain m where m: "syncSettings w (snd ?r2) = (Threw (TypeError m), snd ?r2)"
    by blast
  then show "\<exists>m. syncSettings w (snd ?r2) = (Threw (TypeError m), snd ?r2)"
    by blast
  have steps: "and_then (and_then ?r1 (syncCapabilities w)) (syncSettings w)
                 = (case fst ?r2 of Returned \<Rightarrow> (Threw (TypeError m), snd ?r2)
                    | Threw e \<Rightarrow> (Threw e, snd ?r2))"
    using ret1 m by (simp add: and_then_def split: outcome.splits)
  then show "\<exists>e. fst (and_then (and_then ?r1 (syncCapabilities w)) (syncSettings w)) = Threw e"
    by (simp split: outcome.splits)
  show "\<exists>e. snd (sync w data s) = sync_failed w e (snd ?r2)"
    using steps by (auto simp add: sync_def sync_steps_def and_then_def split: outcome.splits)
qed

lemma new_calls_append: "calls s' = calls s @ xs \<Longrightarrow> new_calls s s' = xs"
  by (simp add: new_calls_def)

lemma new_calls_same: "calls s' = calls s \<Longrightarrow> new_calls s s' = []"
  by (simp add: new_calls_def)

subsection \<open>The specification's scenario\<close>

text \<open>
  C1. The specification expects that the payload
  \<open>{airconStat: {operation: true, airFlow: 2}, numOfAccount: 1, firmType: 'WF-RAC'}\<close>, received
  by an unregistered, available session, ends with the capabilities set, a registration
  attempt and no warning. On the code the payload carries no \<open>wireless\<close> block, so
  \<open>syncSettings\<close> throws on \<open>this.contents.wireless.firmVer\<close>: whatever the session and the
  collaborators, the pass ends with the device unavailable, without any request to the
  transport client (no registration attempt) and with the registration flag as it was.
\<close>

theorem scenario_sync_aborts_before_registration:
  "fst (sync w scenario_payload s) = Returned
   \<and> \<not> available (snd (sync w scenario_payload s))
   \<and> calls (snd (sync w scenario_payload s)) = calls s
   \<and> registered (snd (sync w scenario_payload s)) = registered s"
proof -
  let ?al = "[(''airconStat'', JObj [(''operation'', JBool True), (''airFlow'', JNum 2)]),
              (''numOfAccount'', JNum 1), (''firmType'', JStr ''WF-RAC'')]"
  have inc: "incoming w scenario_payload s = Inr (JObj ?al)"
    by (simp add: incoming_def scenario_payload_def)
  have "\<exists>e. snd (sync w scenario_payload s) =
           sync_failed w e (snd (syncCapabilities w (snd (syncAirconStat w scenario_payload s))))"
    by (rule firmware_blocks_missing_abort(4) [OF inc]) simp_all
  then obtain e where e: "snd (sync w scenario_payload s) =
      sync_failed w e (snd (syncCapabilities w (snd (syncAirconStat w scenario_payload s))))"
    by blast
  have "truthy scenario_payload"
    by (simp add: scenario_payload_def)
  then show ?thesis
    by (simp add: e sync_failed_frame syncCapabilities_frame syncAirconStat_frame
          syncAirconStat_calls) (simp add: sync_def split: outcome.splits)
qed

text \<open>With the two firmware blocks added to the scenario payload the pass runs to its end:
  the capabilities are set, the device is registered by one request and no warning is
  left.\<close>

lemma scenario_with_firmware_blocks_completes:
  "capabilities (snd (sync (demo_world (Inr JNull) (Inr JNull) None)
       (full_payload (JObj [(''operation'', JBool True), (''airFlow'', JNum 2)]) 1 ''WF-RAC'')
       (fresh_device False))) ''onoff'' = Some (JBool True)
   \<and> capabilities (snd (sync (demo_world (Inr JNull) (Inr JNull) None)
       (full_payload (JObj [(''operation'', JBool True), (''airFlow'', JNum 2)]) 1 ''WF-RAC'')
       (fresh_device False))) ''fan_speed'' = Some (JNum 2)
   \<and> calls (snd (sync (demo_world (Inr JNull) (Inr JNull) None)
       (full_payload (JObj [(''operation'', JBool True), (''airFlow'', JNum 2)]) 1 ''WF-RAC'')
       (fresh_device False))) = [UpdateAccountInfo]
   \<and> registered (snd (sync (demo_world (Inr JNull) (Inr JNull) None)
       (full_payload (JObj [(''operation'', JBool True), (''airFlow'', JNum 2)]) 1 ''WF-RAC'')
       (fresh_device False)))
   \<and> warning (snd (sync (demo_world (Inr JNull) (Inr JNull) None)
       (full_payload (JObj [(''operation'', JBool True), (''airFlow'', JNum 2)]) 1 ''WF-RAC'')
       (fresh_device False))) = None
   \<and> available (snd (sync (demo_world (Inr JNull) (Inr JNull) None)
       (full_payload (JObj [(''operation'', JBool True), (''airFlow'', JNum 2)]) 1 ''WF-RAC'')
       (fresh_device False)))"
  by (simp add: step_defs demo_defs host_defs)

subsection \<open>Payloads without a firmware block\<close>

text \<open>
  C10. For every non-blank payload object that has no \<open>wireless\<close> entry or no \<open>mcu\<close> entry:
  the payload is stored; if the capability step returns, the settings step throws a
  \<open>TypeError\<close> (it reads \<open>firmVer\<close> of \<open>undefined\<close>); in every case the first three steps
  throw, so the account step is skipped; the device ends unavailable, the only request of
  the pass is the fetch (when the payload was fetched), and neither the registration
  flag nor the warning changes.
\<close>

theorem missing_firmware_block_aborts_cycle:
  assumes "incoming w data s = Inr (JObj al)" and "al \<noteq> []"
    and "''wireless'' \<notin> set (map fst al) \<or> ''mcu'' \<notin> set (map fst al)"
  shows "fst (syncAirconStat w data s) = Returned
    \<and> (fst (syncCapabilities w (snd (syncAirconStat w data s))) = Returned \<longrightarrow>
         (\<exists>m. fst (syncSettings w (snd (syncCapabilities w (snd (syncAirconStat w data s)))))
                = Threw (TypeError m)))
    \<and> (\<exists>e. fst (and_then (and_then (syncAirconStat w data s) (syncCapabilities w))
                    (syncSettings w)) = Threw e)
    \<and> \<not> available (snd (sync w data s))
    \<and> new_calls s (snd (sync w data s)) = (if truthy data then [] else [GetAirconStat])
    \<and> registered (snd (sync w data s)) = registered s
    \<and> warning (snd (sync w data s)) = warning s"
proof -
  note abort = firmware_blocks_missing_abort [OF assms]
  let ?s2 = "snd (syncCapabilities w (snd (syncAirconStat w data s)))"
  obtain e where e: "snd (sync w data s) = sync_failed w e ?s2"
    using abort(4) by blast
  have settings_throw: "fst (syncCapabilities w (snd (syncAirconStat w data s))) = Returned \<longrightarrow>
         (\<exists>m. fst (syncSettings w ?s2) = Threw (TypeError m))"
  proof
    assume "fst (syncCapabilities w (snd (syncAirconStat w data s))) = Returned"
    then obtain m where "syncSettings w ?s2 = (Threw (TypeError m), ?s2)"
      using abort(2) by blast
    then show "\<exists>m. fst (syncSettings w ?s2) = Threw (TypeError m)"
      by simp
  qed
  have cs: "calls (snd (sync w data s)) = calls s @ (if truthy data then [] else [GetAirconStat])"
    by (simp add: e sync_failed_frame syncCapabilities_frame syncAirconStat_calls)
  have "new_calls s (snd (sync w data s)) = (if truthy data then [] else [GetAirconStat])"
    by (rule new_calls_append) (rule cs)
  moreover have "\<not> available (snd (sync w data s))"
    by (simp add: e sync_failed_frame)
  moreover have "registered (snd (sync w data s)) = registered s"
    by (simp add: e sync_failed_frame syncCapabilities_frame syncAirconStat_frame)
  moreover have "warning (snd (sync w data s)) = warning s"
    by (simp add: e sync_failed_frame syncCapabilities_frame syncAirconStat_frame)
  ultimately show ?thesis
    using abort(1) abort(3) settings_throw by blast
qed

theorem missing_firmware_block_aborts_cycle_witness:
  "\<not> available (snd (sync (demo_world (Inr (JObj [(''numOfAccount'', JNum 2)])) (Inr JNull) None)
                        JNull (fresh_device False)))
   \<and> new_calls (fresh_device False)
        (snd (sync (demo_world (Inr (JObj [(''numOfAccount'', JNum 2)])) (Inr JNull) None)
               JNull (fresh_device False))) = [GetAirconStat]
   \<and> \<not> registered (snd (sync (demo_world (Inr (JObj [(''numOfAccount'', JNum 2)])) (Inr JNull) None)
                        JNull (fresh_device False)))"
proof -
  let ?w = "demo_world (Inr (JObj [(''numOfAccount'', JNum 2)])) (Inr JNull) None"
  have inc: "incoming ?w JNull (fresh_device False) = Inr (JObj [(''numOfAccount'', JNum 2)])"
    by (simp add: incoming_def demo_world_def)
  have "[(''numOfAccount'', JNum 2)] \<noteq> []"
    and "''wireless'' \<notin> set (map fst [(''numOfAccount'', JNum 2)])
         \<or> ''mcu'' \<notin> set (map fst [(''numOfAccount'', JNum 2)])"
    by simp_all
  from missing_firmware_block_aborts_cycle [OF inc this]
  show ?thesis
    by (simp add: fresh_device_def)
qed

subsection \<open>Exceptions of a synchronisation pass\<close>

lemma sync_returns: "fst (sync w data s) = Returned"
  by (simp add: sync_def split: outcome.splits)

text \<open>
  C6. \<open>sync\<close> never throws. Whichever of its four steps throws, in whatever state, the
  pass ends in that state with the error logged and the device set unavailable with the
  localised message of the exception: the steps after the throwing one have no effect.
\<close>

theorem sync_catches_exceptions:
  "fst (sync w data s) = Returned
   \<and> (syncAirconStat w data s = (Threw e, s1) \<longrightarrow> snd (sync w data s) = sync_failed w e s1)
   \<and> (syncAirconStat w data s = (Returned, s1) \<and> syncCapabilities w s1 = (Threw e, s2)
        \<longrightarrow> snd (sync w data s) = sync_failed w e s2)
   \<and> (syncAirconStat w data s = (Returned, s1) \<and> syncCapabilities w s1 = (Returned, s2)
        \<and> syncSettings w s2 = (Threw e, s3)
        \<longrightarrow> snd (sync w data s) = sync_failed w e s3)
   \<and> (syncAirconStat w data s = (Returned, s1) \<and> syncCapabilities w s1 = (Returned, s2)
        \<and> syncSettings w s2 = (Returned, s3) \<and> syncAccount w s3 = (Threw e, s4)
        \<longrightarrow> snd (sync w data s) = sync_failed w e s4)
   \<and> \<not> available (sync_failed w e s')
   \<and> unavailable_message (sync_failed w e s') = Some (homey_tr w (message e) [])
   \<and> errors (sync_failed w e s') = errors s' @ [''Sync error: '' @ message e]"
  by (simp add: sync_returns sync_failed_frame) (simp add: sync_def sync_steps_def sync_failed_def host_defs)

lemma pair_eqI: "fst r = a \<Longrightarrow> r = (a, snd r)"
  by (cases r) simp

lemma eval_fetch_fails:
  "fst (syncAirconStat (demo_world (Inl (Error ''timeout'')) (Inr JNull) None) JNull
          (fresh_device False)) = Threw (Error ''timeout'')"
  by (simp add: syncAirconStat_def demo_world_def)

lemma eval_capabilities_throw:
  "fst (syncAirconStat (demo_world (Inr JNull) (Inr JNull) None)
          (full_payload (JNum 5) 1 ''WF-RAC'') (fresh_device False)) = Returned"
  "\<exists>m. fst (syncCapabilities (demo_world (Inr JNull) (Inr JNull) None)
          (snd (syncAirconStat (demo_world (Inr JNull) (Inr JNull) None)
             (full_payload (JNum 5) 1 ''WF-RAC'') (fresh_device False)))) = Threw (TypeError m)"
  by (simp_all add: syncAirconStat_def store_payload_def full_payload_def Let_def obj_get_def
        syncCapabilities_def)

lemma eval_account_throws:
  "fst (syncAirconStat (demo_world (Inr JNull) (Inr JNull) (Some (Error ''refused'')))
          (full_payload (JObj []) 1 ''WF-RAC'') (fresh_device False)) = Returned"
  "fst (syncCapabilities (demo_world (Inr JNull) (Inr JNull) (Some (Error ''refused'')))
          (snd (syncAirconStat (demo_world (Inr JNull) (Inr JNull) (Some (Error ''refused'')))
             (full_payload (JObj []) 1 ''WF-RAC'') (fresh_device False)))) = Returned"
  "fst (syncSettings (demo_world (Inr JNull) (Inr JNull) (Some (Error ''refused'')))
          (snd (syncCapabilities (demo_world (Inr JNull) (Inr JNull) (Some (Error ''refused'')))
          (snd (syncAirconStat (demo_world (Inr JNull) (Inr JNull) (Some (Error ''refused'')))
             (full_payload (JObj []) 1 ''WF-RAC'') (fresh_device False)))))) = Returned"
  "fst (syncAccount (demo_world (Inr JNull) (Inr JNull) (Some (Error ''refused'')))
       (snd (syncSettings (demo_world (Inr JNull) (Inr JNull) (Some (Error ''refused'')))
          (snd (syncCapabilities (demo_world (Inr JNull) (Inr JNull) (Some (Error ''refused'')))
          (snd (syncAirconStat (demo_world (Inr JNull) (Inr JNull) (Some (Error ''refused'')))
             (full_payload (JObj []) 1 ''WF-RAC'') (fresh_device False)))))))) = Threw (Error ''refused'')"
  by (simp_all add: step_defs demo_defs host_defs)

theorem sync_catches_exceptions_witness:
  "unavailable_message (snd (sync (demo_world (Inl (Error ''timeout'')) (Inr JNull) None) JNull
       (fresh_device False))) = Some ''timeout''
   \<and> \<not> available (snd (sync (demo_world (Inr JNull) (Inr JNull) None)
       (full_payload (JNum 5) 1 ''WF-RAC'') (fresh_device False)))
   \<and> unavailable_message (snd (sync (demo_world (Inr JNull) (Inr JNull) (Some (Error ''refused'')))
       (full_payload (JObj []) 1 ''WF-RAC'') (fresh_device False))) = Some ''refused''"
proof -
  let ?w1 = "demo_world (Inl (Error ''timeout'')) (Inr JNull) None"
  let ?w2 = "demo_world (Inr JNull) (Inr JNull) None"
  let ?w4 = "demo_world (Inr JNull) (Inr JNull) (Some (Error ''refused''))"
  let ?d = "fresh_device False"
  let ?p2 = "full_payload (JNum 5) 1 ''WF-RAC''"
  let ?p4 = "full_payload (JObj []) 1 ''WF-RAC''"
  let ?a1 = "syncAirconStat ?w1 JNull ?d"
  have "?a1 = (Threw (Error ''timeout''), snd ?a1)"
    by (rule pair_eqI) (rule eval_fetch_fails)
  with sync_catches_exceptions [of ?w1 JNull ?d "Error ''timeout''" "snd ?a1"]
  have "snd (sync ?w1 JNull ?d) = sync_failed ?w1 (Error ''timeout'') (snd ?a1)"
    by blast
  then have one: "unavailable_message (snd (sync ?w1 JNull ?d)) = Some ''timeout''"
    by (simp add: sync_failed_frame demo_world_def)
  let ?b1 = "syncAirconStat ?w2 ?p2 ?d"
  let ?b2 = "syncCapabilities ?w2 (snd ?b1)"
  obtain m where m: "fst ?b2 = Threw (TypeError m)"
    using eval_capabilities_throw(2) by blast
  have "?b1 = (Returned, snd ?b1)" and "?b2 = (Threw (TypeError m), snd ?b2)"
    by (rule pair_eqI, rule eval_capabilities_throw(1)) (rule pair_eqI, rule m)
  with sync_catches_exceptions [of ?w2 ?p2 ?d "TypeError m" "snd ?b1" "snd ?b2"]
  have "snd (sync ?w2 ?p2 ?d) = sync_failed ?w2 (TypeError m) (snd ?b2)"
    by blast
  then have two: "\<not> available (snd (sync ?w2 ?p2 ?d))"
    by (simp add: sync_failed_frame)
  let ?c1 = "syncAirconStat ?w4 ?p4 ?d"
  let ?c2 = "syncCapabilities ?w4 (snd ?c1)"
  let ?c3 = "syncSettings ?w4 (snd ?c2)"
  let ?c4 = "syncAccount ?w4 (snd ?c3)"
  have "?c1 = (Returned, snd ?c1)" and "?c2 = (Returned, snd ?c2)"
    and "?c3 = (Returned, snd ?c3)" and "?c4 = (Threw (Error ''refused''), snd ?c4)"
    by (rule pair_eqI, rule eval_account_throws)+
  with sync_catches_exceptions [of ?w4 ?p4 ?d "Error ''refused''" "snd ?c1" "snd ?c2" "snd ?c3"
      "snd ?c4"]
  have "snd (sync ?w4 ?p4 ?d) = sync_failed ?w4 (Error ''refused'') (snd ?c4)"
    by blast
  then have four: "unavailable_message (snd (sync ?w4 ?p4 ?d)) = Some ''refused''"
    by (simp add: sync_failed_frame demo_world_def)
  from one two four show ?thesis
    by blast
qed

subsection \<open>Preconditions of an update\<close>



lemma syncAccount_too_many:
  assumes "\<not> registered s" and "available s" and "num_truthy (accounts s)"
    and "\<not> num_less (accounts s) 4"
  shows "syncAccount w s =
           (Returned, log_error ''warning.accounts''
                        (setWarning (homey_tr w ''warning.accounts'' []) s))"
    and "getAccountWarning s = Some ''warning.accounts''"
proof -
  have "num_greater (accounts s) 3"
    using assms(3,4) by (cases "accounts s" rule: num_truthy.cases) auto
  then show "getAccountWarning s = Some ''warning.accounts''"
    using assms(1,3) by (simp add: getAccountWarning_def)
  then show "syncAccount w s =
           (Returned, log_error ''warning.accounts''
                        (setWarning (homey_tr w ''warning.accounts'' []) s))"
    using assms by (simp add: syncAccount_def getAvailable_def)
qed



subsection \<open>The firmware warning\<close>

text \<open>
  C2. The specification expects the firmware warning of a pass to survive that pass. On
  the code the settings step raises it and skips \<open>unsetWarning\<close>, but the account step of
  the same pass does not look at the firmware: on an unregistered device with one account
  it registers and clears the banner, with five accounts it replaces the banner by the
  too-many-accounts warning.
\<close>

theorem firmware_warning_overwritten_by_account_step:
  "warning (snd (and_then (and_then
        (syncAirconStat (demo_world (Inr JNull) (Inr JNull) None)
           (full_payload (JObj []) 1 ''WF-RAC-2'') (fresh_device False))
        (syncCapabilities (demo_world (Inr JNull) (Inr JNull) None)))
        (syncSettings (demo_world (Inr JNull) (Inr JNull) None))))
     = Some ''warning.firmware''
   \<and> warning (snd (sync (demo_world (Inr JNull) (Inr JNull) None)
        (full_payload (JObj []) 1 ''WF-RAC-2'') (fresh_device False))) = None
   \<and> warning (snd (sync (demo_world (Inr JNull) (Inr JNull) None)
        (full_payload (JObj []) 5 ''WF-RAC-2'') (fresh_device False))) = Some ''warning.accounts''"
  by (simp add: step_defs demo_defs host_defs)

subsection \<open>Requests made by one operation\<close>

lemma syncAccount_calls:
  "calls (snd (syncAccount w s)) = calls s
   \<or> calls (snd (syncAccount w s)) = calls s @ [UpdateAccountInfo]"
  by (auto simp add: syncAccount_def registerAccount_def and_then_def host_defs
        split: option.splits)

lemma sync_steps_calls:
  "\<exists>xs. calls (snd (sync_steps w data s)) = calls s @ xs
        \<and> set xs \<subseteq> {GetAirconStat, UpdateAccountInfo}"
proof -
  let ?r1 = "syncAirconStat w data s"
  let ?r2 = "and_then ?r1 (syncCapabilities w)"
  let ?r3 = "and_then ?r2 (syncSettings w)"
  let ?r4 = "and_then ?r3 (syncAccount w)"
  have c1: "calls (snd ?r1) = calls s @ (if truthy data then [] else [GetAirconStat])"
    by (rule syncAirconStat_calls)
  have c2: "calls (snd ?r2) = calls (snd ?r1)"
    by (simp add: and_then_def syncCapabilities_frame split: outcome.splits)
  have c3: "calls (snd ?r3) = calls (snd ?r2)"
    by (simp add: and_then_def syncSettings_frame split: outcome.splits)
  have c4: "calls (snd ?r4) = calls (snd ?r3) \<or> calls (snd ?r4) = calls (snd ?r3) @ [UpdateAccountInfo]"
    using syncAccount_calls [of w "snd ?r3"]
    by (auto simp add: and_then_def split: outcome.splits)
  have "calls (snd ?r4) = calls s @ (if truthy data then [] else [GetAirconStat])
        \<or> calls (snd ?r4) = calls s @ (if truthy data then [] else [GetAirconStat]) @ [UpdateAccountInfo]"
    using c4 by (simp add: c1 c2 c3)
  then show ?thesis
    unfolding sync_steps_def by (auto split: if_splits)
qed

lemma sync_calls:
  "\<exists>xs. calls (snd (sync w data s)) = calls s @ xs
        \<and> set xs \<subseteq> {GetAirconStat, UpdateAccountInfo}"
  using sync_steps_calls [of w data s]
  by (simp add: sync_def sync_failed_frame split: outcome.splits)

subsection \<open>Merging a patch\<close>

lemma map_of_obj_set: "map_of (obj_set al k v) k' = (if k' = k then Some v else map_of al k')"
  by (induction al) auto

lemma assign_all_object:
  "assign_all p (JObj al) = (None, JObj (fold (\<lambda>q a. obj_set a (fst q) (snd q)) p al))"
  by (induction p arbitrary: al) simp_all

lemma assign_all_target:
  "assign_all p t = (None, m) \<Longrightarrow> p \<noteq> [] \<Longrightarrow> \<exists>al. t = JObj al"
  by (cases p; cases t) simp_all

lemma map_of_fold_obj_set:
  "distinct (map fst p) \<Longrightarrow> (k, v) \<in> set p \<Longrightarrow>
   map_of (fold (\<lambda>q a. obj_set a (fst q) (snd q)) p al) k = Some v"
proof (induction p arbitrary: al)
  case Nil
  then show ?case by simp
next
  case (Cons q p)
  show ?case
  proof (cases "(k, v) \<in> set p")
    case True
    then show ?thesis
      using Cons by simp
  next
    case False
    then have q: "q = (k, v)"
      using Cons.prems(2) by simp
    then have "k \<notin> fst ` set p"
      using Cons.prems(1) by simp
    then have "map_of (fold (\<lambda>q a. obj_set a (fst q) (snd q)) p al') k = map_of al' k" for al'
      by (induction p arbitrary: al') (auto simp add: map_of_obj_set)
    then show ?thesis
      by (simp add: q map_of_obj_set)
  qed
qed

lemma assign_all_patch_wins:
  assumes "assign_all p t = (None, m)" and "distinct (map fst p)" and "(k, v) \<in> set p"
  shows "js_get m k = Inr v"
proof -
  have "p \<noteq> []"
    using assms(3) by auto
  then obtain al where t: "t = JObj al"
    using assign_all_target [OF assms(1)] by blast
  then have "m = JObj (fold (\<lambda>q a. obj_set a (fst q) (snd q)) p al)"
    using assms(1) by (simp add: assign_all_object)
  then show ?thesis
    using map_of_fold_obj_set [OF assms(2,3)] by (simp add: obj_get_def)
qed

subsection \<open>What an update sends\<close>

lemma send_update_calls:
  "\<exists>xs. calls (snd (send_update w s)) = calls s @ SetAirconStat (airconStat s) # xs
        \<and> set xs \<subseteq> {GetAirconStat, UpdateAccountInfo}"
proof (cases "setAirconStat_reply w (calls s) (airconStat s)")
  case (Inl e)
  then show ?thesis
    by (simp add: send_update_def record_call_def)
next
  case (Inr r)
  obtain xs where "calls (snd (sync w r (record_call (SetAirconStat (airconStat s)) s)))
      = calls (record_call (SetAirconStat (airconStat s)) s) @ xs"
    and "set xs \<subseteq> {GetAirconStat, UpdateAccountInfo}"
    using sync_calls by blast
  then show ?thesis
    using Inr by (simp add: send_update_def record_call_def)
qed

lemma update_steps_sends:
  assumes "SetAirconStat m \<in> set (new_calls s (snd (update_steps w p s)))"
  shows "registered s \<and> fst (syncAirconStat w JNull s) = Returned
         \<and> assign_all p (airconStat (snd (syncAirconStat w JNull s))) = (None, m)"
proof -
  let ?r1 = "syncAirconStat w JNull s"
  let ?a = "assign_all p (airconStat (snd ?r1))"
  let ?s2 = "(snd ?r1)\<lparr>airconStat := snd ?a\<rparr>"
  have c1: "calls (snd ?r1) = calls s @ [GetAirconStat]"
    by (simp add: syncAirconStat_calls)
  have reg: "registered s"
    using assms by (cases "registered s") (simp_all add: update_steps_def new_calls_def)
  have ret: "fst ?r1 = Returned"
  proof (cases "fst ?r1")
    case (Threw e)
    then show ?thesis
      using assms reg c1 by (simp add: update_steps_def and_then_def new_calls_def)
  qed simp
  have none: "fst ?a = None"
  proof (cases "fst ?a")
    case (Some e)
    then show ?thesis
      using assms reg ret c1 by (simp add: update_steps_def and_then_def new_calls_def)
  qed simp
  obtain xs where xs: "calls (snd (send_update w ?s2)) = calls ?s2 @ SetAirconStat (airconStat ?s2) # xs"
    and sub: "set xs \<subseteq> {GetAirconStat, UpdateAccountInfo}"
    using send_update_calls by blast
  have "update_steps w p s = send_update w ?s2"
    using reg ret none by (simp add: update_steps_def and_then_def)
  then have "new_calls s (snd (update_steps w p s)) = GetAirconStat # SetAirconStat (snd ?a) # xs"
    using xs c1 by (simp add: new_calls_def)
  then have "m = snd ?a"
    using assms sub by auto
  then show ?thesis
    using reg ret none by (simp add: prod_eq_iff)
qed

lemma updateDevice_sends:
  assumes "SetAirconStat m \<in> set (new_calls s (snd (updateDevice w p s)))"
  shows "available s \<and> registered s \<and> fst (syncAirconStat w JNull s) = Returned
         \<and> assign_all p (airconStat (snd (syncAirconStat w JNull s))) = (None, m)"
proof -
  have av: "available s"
    using assms
    by (cases "available s") (simp_all add: updateDevice_def getAvailable_def new_calls_def log_error_def)
  then have "calls (snd (updateDevice w p s)) = calls (snd (update_steps w p s))"
    by (simp add: updateDevice_def getAvailable_def log_error_def split: outcome.splits)
  then have "SetAirconStat m \<in> set (new_calls s (snd (update_steps w p s)))"
    using assms by (simp add: new_calls_def)
  then show ?thesis
    using av update_steps_sends by blast
qed

lemma updateDevice_sends_patch:
  assumes "SetAirconStat m \<in> set (new_calls s (snd (updateDevice w p s)))"
    and "distinct (map fst p)" and "(k, v) \<in> set p"
  shows "js_get m k = Inr v"
  using updateDevice_sends [OF assms(1)] assign_all_patch_wins [OF _ assms(2,3)] by blast

lemmas update_defs = updateDevice_def update_steps_def send_update_def queue_def new_calls_def

subsection \<open>Patch precedence\<close>

text \<open>
  C5. Whatever the session, the replies of the device and the patch (an object, so its
  keys are distinct): every state that \<open>updateDevice\<close> sends to the device maps each key
  of the patch to the patch's value, whatever the freshly fetched control state held for
  that key. In particular \<open>updateDevice({k: v})\<close> sends a state with \<open>v\<close> at \<open>k\<close>.
\<close>

theorem patch_wins_over_fetched_state:
  assumes "SetAirconStat m \<in> set (new_calls s (snd (updateDevice w p s)))"
    and "distinct (map fst p)" and "(k, v) \<in> set p"
  shows "js_get m k = Inr v"
  using assms by (rule updateDevice_sends_patch)

theorem patch_wins_over_fetched_state_witness:
  "SetAirconStat (JObj [(''presetTemp'', JNum 24), (''entrust'', JBool True)])
     \<in> set (new_calls (fresh_device True)
         (snd (updateDevice
            (demo_world
               (Inr (full_payload (JObj [(''presetTemp'', JNum 20), (''entrust'', JBool True)])
                       1 ''WF-RAC''))
               (Inr (JObj [])) None)
            [(''presetTemp'', JNum 24)] (fresh_device True))))
   \<and> js_get (JObj [(''presetTemp'', JNum 24), (''entrust'', JBool True)]) ''presetTemp''
       = Inr (JNum 24)"
proof -
  let ?w = "demo_world
               (Inr (full_payload (JObj [(''presetTemp'', JNum 20), (''entrust'', JBool True)])
                       1 ''WF-RAC''))
               (Inr (JObj [])) None"
  let ?m = "JObj [(''presetTemp'', JNum 24), (''entrust'', JBool True)]"
  have sent: "SetAirconStat ?m \<in> set (new_calls (fresh_device True)
         (snd (updateDevice ?w [(''presetTemp'', JNum 24)] (fresh_device True))))"
    by (simp add: update_defs step_defs demo_defs host_defs)
  have "distinct (map fst [(''presetTemp'', JNum 24)])"
    and "(''presetTemp'', JNum 24) \<in> set [(''presetTemp'', JNum 24)]"
    by simp_all
  from patch_wins_over_fetched_state [OF sent this] sent
  show ?thesis
    by blast
qed

subsection \<open>Vane positions\<close>

text \<open>
  C8. A change of the horizontal or of the vertical vane position hands \<open>queue\<close> a patch
  with the vane field and \<open>entrust: false\<close>. Every state sent to the device in the course
  of such a change holds \<open>false\<close> at \<open>entrust\<close> and the native code of the position at the
  vane field.
\<close>

theorem vane_change_clears_entrust:
  "(SetAirconStat m \<in> set (new_calls s (snd (onCapabilityHorizontalPosition w v s))) \<longrightarrow>
      js_get m ''entrust'' = Inr (JBool False)
      \<and> js_get m ''windDirectionLR'' = Inr (HorizontalPositionNames w v))
   \<and> (SetAirconStat m \<in> set (new_calls s (snd (onCapabilityVerticalPosition w v s))) \<longrightarrow>
      js_get m ''entrust'' = Inr (JBool False)
      \<and> js_get m ''windDirectionUD'' = Inr (VerticalPositionNames w v))"
proof (intro conjI impI)
  let ?h = "[(''windDirectionLR'', HorizontalPositionNames w v), (''entrust'', JBool False)]"
  assume "SetAirconStat m \<in> set (new_calls s (snd (onCapabilityHorizontalPosition w v s)))"
  then have sent: "SetAirconStat m \<in> set (new_calls s (snd (updateDevice w ?h s)))"
    by (simp add: onCapabilityHorizontalPosition_def queue_def)
  have d: "distinct (map fst ?h)"
    by simp
  show "js_get m ''entrust'' = Inr (JBool False)"
    by (rule updateDevice_sends_patch [OF sent d]) simp
  show "js_get m ''windDirectionLR'' = Inr (HorizontalPositionNames w v)"
    by (rule updateDevice_sends_patch [OF sent d]) simp
next
  let ?u = "[(''windDirectionUD'', VerticalPositionNames w v), (''entrust'', JBool False)]"
  assume "SetAirconStat m \<in> set (new_calls s (snd (onCapabilityVerticalPosition w v s)))"
  then have sent: "SetAirconStat m \<in> set (new_calls s (snd (updateDevice w ?u s)))"
    by (simp add: onCapabilityVerticalPosition_def queue_def)
  have d: "distinct (map fst ?u)"
    by simp
  show "js_get m ''entrust'' = Inr (JBool False)"
    by (rule updateDevice_sends_patch [OF sent d]) simp
  show "js_get m ''windDirectionUD'' = Inr (VerticalPositionNames w v)"
    by (rule updateDevice_sends_patch [OF sent d]) simp
qed

theorem vane_change_clears_entrust_witness:
  "new_calls (fresh_device True)
     (snd (onCapabilityHorizontalPosition
        (demo_world
           (Inr (full_payload (JObj [(''presetTemp'', JNum 20), (''entrust'', JBool True)])
                   1 ''WF-RAC''))
           (Inr (JObj [])) None)
        (JNum 3) (fresh_device True)))
     = [GetAirconStat,
        SetAirconStat (JObj [(''presetTemp'', JNum 20), (''entrust'', JBool False),
                             (''windDirectionLR'', JNum 3)])]
   \<and> new_calls (fresh_device True)
     (snd (onCapabilityVerticalPosition
        (demo_world
           (Inr (full_payload (JObj [(''presetTemp'', JNum 20), (''entrust'', JBool True)])
                   1 ''WF-RAC''))
           (Inr (JObj [])) None)
        (JNum 2) (fresh_device True)))
     = [GetAirconStat,
        SetAirconStat (JObj [(''presetTemp'', JNum 20), (''entrust'', JBool False),
                             (''windDirectionUD'', JNum 2)])]
   \<and> js_get (JObj [(''presetTemp'', JNum 20), (''entrust'', JBool False),
                    (''windDirectionLR'', JNum 3)]) ''entrust'' = Inr (JBool False)
   \<and> js_get (JObj [(''presetTemp'', JNum 20), (''entrust'', JBool False),
                    (''windDirectionUD'', JNum 2)]) ''entrust'' = Inr (JBool False)"
proof -
  let ?w = "demo_world
           (Inr (full_payload (JObj [(''presetTemp'', JNum 20), (''entrust'', JBool True)])
                   1 ''WF-RAC''))
           (Inr (JObj [])) None"
  let ?mh = "JObj [(''presetTemp'', JNum 20), (''entrust'', JBool False),
                   (''windDirectionLR'', JNum 3)]"
  let ?mv = "JObj [(''presetTemp'', JNum 20), (''entrust'', JBool False),
                   (''windDirectionUD'', JNum 2)]"
  have h: "new_calls (fresh_device True)
      (snd (onCapabilityHorizontalPosition ?w (JNum 3) (fresh_device True)))
      = [GetAirconStat, SetAirconStat ?mh]"
    by (simp add: onCapabilityHorizontalPosition_def update_defs step_defs demo_defs host_defs)
  have u: "new_calls (fresh_device True)
      (snd (onCapabilityVerticalPosition ?w (JNum 2) (fresh_device True)))
      = [GetAirconStat, SetAirconStat ?mv]"
    by (simp add: onCapabilityVerticalPosition_def update_defs step_defs demo_defs host_defs)
  have "SetAirconStat ?mh \<in> set (new_calls (fresh_device True)
      (snd (onCapabilityHorizontalPosition ?w (JNum 3) (fresh_device True))))"
    by (simp add: h)
  with vane_change_clears_entrust [of ?mh "fresh_device True" ?w "JNum 3"]
  have one: "js_get ?mh ''entrust'' = Inr (JBool False)"
    by blast
  have "SetAirconStat ?mv \<in> set (new_calls (fresh_device True)
      (snd (onCapabilityVerticalPosition ?w (JNum 2) (fresh_device True))))"
    by (simp add: u)
  with vane_change_clears_entrust [of ?mv "fresh_device True" ?w "JNum 2"]
  have two: "js_get ?mv ''entrust'' = Inr (JBool False)"
    by blast
  from h u one two show ?thesis
    by blast
qed

subsection \<open>Registration in the account step\<close>

lemma first_steps_calls:
  "calls (snd (and_then (and_then (syncAirconStat w data s) (syncCapabilities w)) (syncSettings w)))
     = calls s @ (if truthy data then [] else [GetAirconStat])"
  by (simp add: and_then_def syncAirconStat_calls syncCapabilities_frame syncSettings_frame
        split: outcome.splits)

lemma syncAccount_registers:
  assumes "\<not> registered s" and "available s" and "num_truthy (accounts s)"
    and "num_less (accounts s) 4"
  shows "calls (snd (syncAccount w s)) = calls s @ [UpdateAccountInfo]"
  using assms
  by (simp add: syncAccount_def registerAccount_def and_then_def getAccountWarning_def host_defs
        split: option.splits)

lemma sync_after_first_steps:
  assumes "and_then (and_then (syncAirconStat w data s) (syncCapabilities w)) (syncSettings w)
             = (Returned, s3)"
  shows "calls (snd (sync w data s)) = calls (snd (syncAccount w s3))"
    and "fst (syncAccount w s3) = Returned \<Longrightarrow> snd (sync w data s) = snd (syncAccount w s3)"
    and "calls s3 = calls s @ (if truthy data then [] else [GetAirconStat])"
proof -
  have steps: "sync_steps w data s = syncAccount w s3"
    by (simp add: sync_steps_def assms)
  show "calls (snd (sync w data s)) = calls (snd (syncAccount w s3))"
    by (simp add: sync_def steps sync_failed_frame split: outcome.splits)
  show "fst (syncAccount w s3) = Returned \<Longrightarrow> snd (sync w data s) = snd (syncAccount w s3)"
    by (simp add: sync_def steps)
  show "calls s3 = calls s @ (if truthy data then [] else [GetAirconStat])"
    using first_steps_calls [of w data s] by (simp add: assms)
qed

text \<open>
  C4, as the code has it. In every synchronisation pass whose first three steps return
  and leave the device unregistered and available with an account count \<open>n\<close>: if \<open>n > 3\<close>
  the pass makes no registration request, the device stays unregistered and the warning
  is the too-many-accounts warning; if \<open>1 \<le> n \<le> 3\<close> the pass makes exactly one
  registration request (after the fetch, when the payload was fetched).
\<close>

theorem account_step_registration:
  assumes "and_then (and_then (syncAirconStat w data s) (syncCapabilities w)) (syncSettings w)
             = (Returned, s3)"
    and "\<not> registered s3" and "available s3" and "accounts s3 = Some (Num n)"
  shows "(3 < n \<longrightarrow>
            new_calls s (snd (sync w data s)) = (if truthy data then [] else [GetAirconStat])
            \<and> \<not> registered (snd (sync w data s))
            \<and> warning (snd (sync w data s)) = Some (homey_tr w ''warning.accounts'' []))
       \<and> (1 \<le> n \<and> n \<le> 3 \<longrightarrow>
            new_calls s (snd (sync w data s))
              = (if truthy data then [] else [GetAirconStat]) @ [UpdateAccountInfo])"
proof (intro conjI impI)
  note after = sync_after_first_steps [OF assms(1)]
  assume "3 < n"
  then have many: "num_truthy (accounts s3)" "\<not> num_less (accounts s3) 4"
    by (simp_all add: assms(4))
  have acc: "syncAccount w s3 =
      (Returned, log_error ''warning.accounts'' (setWarning (homey_tr w ''warning.accounts'' []) s3))"
    by (rule syncAccount_too_many(1) [OF assms(2,3) many])
  then have final: "snd (sync w data s) =
      log_error ''warning.accounts'' (setWarning (homey_tr w ''warning.accounts'' []) s3)"
    using after(2) by simp
  have "calls (snd (sync w data s)) = calls s @ (if truthy data then [] else [GetAirconStat])"
    by (simp add: final after(3) log_error_def setWarning_def)
  then show "new_calls s (snd (sync w data s)) = (if truthy data then [] else [GetAirconStat])"
    by (rule new_calls_append)
  show "\<not> registered (snd (sync w data s))"
    using assms(2) by (simp add: final log_error_def setWarning_def)
  show "warning (snd (sync w data s)) = Some (homey_tr w ''warning.accounts'' [])"
    by (simp add: final log_error_def setWarning_def)
next
  note after = sync_after_first_steps [OF assms(1)]
  assume "1 \<le> n \<and> n \<le> 3"
  then have few: "num_truthy (accounts s3)" "num_less (accounts s3) 4"
    by (simp_all add: assms(4))
  have "calls (snd (sync w data s))
          = calls s @ (if truthy data then [] else [GetAirconStat]) @ [UpdateAccountInfo]"
    using syncAccount_registers [OF assms(2,3) few, of w] by (simp add: after(1,3))
  then show "new_calls s (snd (sync w data s))
              = (if truthy data then [] else [GetAirconStat]) @ [UpdateAccountInfo]"
    by (rule new_calls_append)
qed

lemma eval_first_steps:
  "fst (and_then (and_then
          (syncAirconStat (demo_world (Inr JNull) (Inr JNull) None)
             (full_payload (JObj []) n ''WF-RAC'') (fresh_device False))
          (syncCapabilities (demo_world (Inr JNull) (Inr JNull) None)))
          (syncSettings (demo_world (Inr JNull) (Inr JNull) None))) = Returned"
  "\<not> registered (snd (and_then (and_then
          (syncAirconStat (demo_world (Inr JNull) (Inr JNull) None)
             (full_payload (JObj []) n ''WF-RAC'') (fresh_device False))
          (syncCapabilities (demo_world (Inr JNull) (Inr JNull) None)))
          (syncSettings (demo_world (Inr JNull) (Inr JNull) None))))"
  "available (snd (and_then (and_then
          (syncAirconStat (demo_world (Inr JNull) (Inr JNull) None)
             (full_payload (JObj []) n ''WF-RAC'') (fresh_device False))
          (syncCapabilities (demo_world (Inr JNull) (Inr JNull) None)))
          (syncSettings (demo_world (Inr JNull) (Inr JNull) None))))"
  "accounts (snd (and_then (and_then
          (syncAirconStat (demo_world (Inr JNull) (Inr JNull) None)
             (full_payload (JObj []) n ''WF-RAC'') (fresh_device False))
          (syncCapabilities (demo_world (Inr JNull) (Inr JNull) None)))
          (syncSettings (demo_world (Inr JNull) (Inr JNull) None)))) = Some (Num n)"
  by (simp_all add: step_defs demo_defs host_defs)

theorem account_step_registration_witness:
  "new_calls (fresh_device False)
     (snd (sync (demo_world (Inr JNull) (Inr JNull) None)
        (full_payload (JObj []) 5 ''WF-RAC'') (fresh_device False))) = []
   \<and> warning (snd (sync (demo_world (Inr JNull) (Inr JNull) None)
        (full_payload (JObj []) 5 ''WF-RAC'') (fresh_device False))) = Some ''warning.accounts''
   \<and> new_calls (fresh_device False)
     (snd (sync (demo_world (Inr JNull) (Inr JNull) None)
        (full_payload (JObj []) 2 ''WF-RAC'') (fresh_device False))) = [UpdateAccountInfo]"
proof -
  let ?w = "demo_world (Inr JNull) (Inr JNull) None"
  let ?f = "\<lambda>n. and_then (and_then
          (syncAirconStat ?w (full_payload (JObj []) n ''WF-RAC'') (fresh_device False))
          (syncCapabilities ?w)) (syncSettings ?w)"
  have tr: "truthy (full_payload (JObj []) n ''WF-RAC'')" for n
    by (simp add: full_payload_def)
  have "?f 5 = (Returned, snd (?f 5))"
    by (rule pair_eqI) (rule eval_first_steps)
  from account_step_registration [OF this eval_first_steps(2,3,4)]
  have five: "new_calls (fresh_device False)
       (snd (sync ?w (full_payload (JObj []) 5 ''WF-RAC'') (fresh_device False))) = []
     \<and> warning (snd (sync ?w (full_payload (JObj []) 5 ''WF-RAC'') (fresh_device False)))
         = Some ''warning.accounts''"
    by (simp add: tr) (simp add: demo_world_def)
  have "?f 2 = (Returned, snd (?f 2))"
    by (rule pair_eqI) (rule eval_first_steps)
  from account_step_registration [OF this eval_first_steps(2,3,4)]
  have two: "new_calls (fresh_device False)
       (snd (sync ?w (full_payload (JObj []) 2 ''WF-RAC'') (fresh_device False)))
       = [UpdateAccountInfo]"
    by (simp add: tr)
  from five two show ?thesis
    by blast
qed

text \<open>
  C4 as stated fails. A registration request that the device refuses leaves the session
  unavailable and unregistered with two accounts; in the next pass the fetch returns a
  blank payload, availability is not restored, and the account step returns at its
  availability check: no registration request is made. The scenario payload with one
  account does not reach the account step either.
\<close>

theorem unregistered_cycle_without_registration:
  "\<not> registered (snd (sync (demo_world (Inr JNull) (Inr JNull) (Some (Error ''refused'')))
        (full_payload (JObj []) 2 ''WF-RAC'') (fresh_device False)))
   \<and> accounts (snd (sync (demo_world (Inr JNull) (Inr JNull) (Some (Error ''refused'')))
        (full_payload (JObj []) 2 ''WF-RAC'') (fresh_device False))) = Some (Num 2)
   \<and> new_calls
        (snd (sync (demo_world (Inr JNull) (Inr JNull) (Some (Error ''refused'')))
           (full_payload (JObj []) 2 ''WF-RAC'') (fresh_device False)))
        (snd (sync (demo_world (Inr (JObj [])) (Inr JNull) None) JNull
           (snd (sync (demo_world (Inr JNull) (Inr JNull) (Some (Error ''refused'')))
              (full_payload (JObj []) 2 ''WF-RAC'') (fresh_device False))))) = [GetAirconStat]
   \<and> new_calls (fresh_device False)
        (snd (sync (demo_world (Inr JNull) (Inr JNull) None) scenario_payload
           (fresh_device False))) = []"
  by (simp add: new_calls_def step_defs demo_defs host_defs)

subsection \<open>Capabilities and settings over a pass\<close>

lemma sync_capability_value:
  "capabilities (sync_capability st f g t conv s) c =
     (if f \<in> set (map fst st) \<and> hasCapability s g \<and> c = t then Some (conv (obj_get st f))
      else capabilities s c)"
  by (simp add: sync_capability_def setCapabilityValue_def)

lemma sync_capability_has [simp]:
  "hasCapability (sync_capability st f g t conv s) c = hasCapability s c"
  by (simp add: hasCapability_def sync_capability_frame)

lemma syncCapabilities_object:
  "airconStat s = JObj st \<Longrightarrow>
   capabilities (snd (syncCapabilities w s)) c =
     (if ''windDirectionUD'' \<in> set (map fst st) \<and> hasCapability s ''vertical_position''
         \<and> c = ''vertical_position''
      then Some (VerticalPosition w (obj_get st ''windDirectionUD''))
      else if ''presetTemp'' \<in> set (map fst st) \<and> hasCapability s ''target_temperature''
         \<and> c = ''target_temperature''
      then Some (obj_get st ''presetTemp'')
      else if ''outdoorTemp'' \<in> set (map fst st) \<and> hasCapability s ''measure_temperature''
         \<and> c = ''measure_temperature.outdoor''
      then Some (obj_get st ''outdoorTemp'')
      else if ''operationMode'' \<in> set (map fst st) \<and> hasCapability s ''operating_mode''
         \<and> c = ''operating_mode''
      then Some (OperationMode w (obj_get st ''operationMode''))
      else if ''operation'' \<in> set (map fst st) \<and> hasCapability s ''onoff'' \<and> c = ''onoff''
      then Some (obj_get st ''operation'')
      else if ''indoorTemp'' \<in> set (map fst st) \<and> hasCapability s ''measure_temperature''
         \<and> c = ''measure_temperature''
      then Some (obj_get st ''indoorTemp'')
      else if ''windDirectionLR'' \<in> set (map fst st) \<and> hasCapability s ''horizontal_position''
         \<and> c = ''horizontal_position''
      then Some (HorizontalPosition w (obj_get st ''windDirectionLR''))
      else if ''airFlow'' \<in> set (map fst st) \<and> hasCapability s ''fan_speed'' \<and> c = ''fan_speed''
      then Some (AirFlow w (obj_get st ''airFlow''))
      else if ''entrust'' \<in> set (map fst st) \<and> hasCapability s ''3d_auto'' \<and> c = ''3d_auto''
      then Some (obj_get st ''entrust'')
      else capabilities s c)"
  apply (simp only: syncCapabilities_def)
  apply (simp only: truthy.simps jsval.case snd_conv comp_apply if_False not_True_eq_False)
  apply (simp only: sync_capability_value sync_capability_has id_apply)
  done


lemma syncCapabilities_absent_all:
  "airconStat s = JObj st \<Longrightarrow>
   \<forall>p\<in>set capability_fields. fst p \<notin> set (map fst st) \<longrightarrow>
      capabilities (snd (syncCapabilities w s)) (snd p) = capabilities s (snd p)"
  unfolding capability_fields_def
  by (simp add: syncCapabilities_object)

lemma syncCapabilities_absent_field:
  assumes "(f, c) \<in> set capability_fields" and "\<not> has_field (airconStat s) f"
  shows "capabilities (snd (syncCapabilities w s)) c = capabilities s c"
proof (cases "airconStat s")
  case (JObj st)
  have absent: "f \<notin> set (map fst st)"
    using assms(2) JObj by (simp add: has_field_def)
  from syncCapabilities_absent_all [OF JObj, of w, THEN bspec, OF assms(1)] absent
  show ?thesis
    by simp
qed (simp_all add: syncCapabilities_def split: sum.splits)

lemma sync_capabilities_unfold:
  "capabilities (snd (sync w data s)) =
     (case fst (syncAirconStat w data s) of
        Returned \<Rightarrow> capabilities (snd (syncCapabilities w (snd (syncAirconStat w data s))))
      | Threw e \<Rightarrow> capabilities s)"
  by (simp add: sync_def sync_steps_def and_then_def sync_failed_frame syncAccount_frame
        syncSettings_frame syncAirconStat_frame split: outcome.splits)

lemma sync_settings_unfold:
  "settings (snd (sync w data s)) =
     (case fst (and_then (syncAirconStat w data s) (syncCapabilities w)) of
        Returned \<Rightarrow> settings (snd (syncSettings w
                       (snd (syncCapabilities w (snd (syncAirconStat w data s))))))
      | Threw e \<Rightarrow> settings s)"
  by (simp add: sync_def sync_steps_def and_then_def sync_failed_frame syncAccount_frame
        syncCapabilities_frame syncAirconStat_frame split: outcome.splits)

lemma store_payload_stored:
  assumes "\<not> blank d" and "fst (store_payload d s) = Returned"
  shows "airconStat (snd (store_payload d s)) = field_of d ''airconStat''"
    and "contents (snd (store_payload d s)) = js_delete d ''airconStat''"
    and "accounts (snd (store_payload d s)) =
           (if has_field d ''numOfAccount'' then Some (to_number (field_of d ''numOfAccount''))
            else None)"
    and "firmware (snd (store_payload d s)) =
           (if has_field d ''firmType'' then field_of d ''firmType'' else JNull)"
    and "\<exists>al. d = JObj al"
  using assms
  by (cases d; simp add: store_payload_def Let_def setAvailable_def has_field_def field_of_def)+

lemma store_payload_airconStat:
  "\<not> blank d \<Longrightarrow> airconStat (snd (store_payload d s)) = field_of d ''airconStat''"
  by (cases d) (simp_all add: store_payload_def Let_def setAvailable_def field_of_def)

lemma syncAirconStat_stored:
  assumes "incoming w data s = Inr d"
  shows "syncAirconStat w data s =
           store_payload d (if truthy data then s else record_call GetAirconStat s)"
  using assms by (simp add: syncAirconStat_incoming)

lemma setting_entry_absent:
  "k \<notin> set (map fst al) \<Longrightarrow> (settings s ++ map_of al) k = settings s k"
  by (simp add: map_add_def map_of_eq_None_iff [THEN iffD2])

lemma js_get_truthy: "truthy v \<Longrightarrow> js_get v k = Inr (field_of v k)"
  by (cases v) (simp_all add: field_of_def)

lemma syncSettings_settings:
  "settings (snd (syncSettings w s)) = settings s
   \<or> (\<exists>wv mv. js_get (field_of (contents s) ''wireless'') ''firmVer'' = Inr wv
        \<and> js_get (field_of (contents s) ''mcu'') ''firmVer'' = Inr mv
        \<and> settings (snd (syncSettings w s)) =
            settings s ++ map_of
               (entry_if (num_truthy (accounts s)) ''accounts''
                   (JStr (case accounts s of Some n \<Rightarrow> string_of_jsnum n | None \<Rightarrow> ''null''))
                @ entry_if (filled (firmware s)) ''firmware_type'' (firmware s)
                @ entry_if (filled wv) ''wifi_firmware'' wv
                @ entry_if (filled mv) ''mcu_firmware'' mv))"
proof (cases "truthy (contents s)")
  case False
  then show ?thesis
    by (simp add: syncSettings_def)
next
  case True
  note get = js_get_truthy [OF True]
  show ?thesis
  proof (cases "js_get (field_of (contents s) ''wireless'') ''firmVer''")
    case (Inl e)
    then show ?thesis
      using True by (simp add: syncSettings_def get)
  next
    case wv: (Inr wv)
    show ?thesis
    proof (cases "js_get (field_of (contents s) ''mcu'') ''firmVer''")
      case (Inl e)
      then show ?thesis
        using True wv by (simp add: syncSettings_def get)
    next
      case mv: (Inr mv)
      let ?new = "entry_if (num_truthy (accounts s)) ''accounts''
                   (JStr (case accounts s of Some n \<Rightarrow> string_of_jsnum n | None \<Rightarrow> ''null''))
                @ entry_if (filled (firmware s)) ''firmware_type'' (firmware s)
                @ entry_if (filled wv) ''wifi_firmware'' wv
                @ entry_if (filled mv) ''mcu_firmware'' mv"
      have "settings (snd (syncSettings w s)) =
              settings (if filled (JObj ?new) then setSettings ?new s else s)"
        using True wv mv
        by (simp add: syncSettings_def get Let_def setFirmwareWarning_frame unsetWarning_def)
      then have "settings (snd (syncSettings w s)) = settings s
                 \<or> settings (snd (syncSettings w s)) = settings s ++ map_of ?new"
        by (simp add: setSettings_def split: if_splits)
      then show ?thesis
        using wv mv by blast
    qed
  qed
qed

lemma js_get_absent_field:
  "\<not> has_field v k \<Longrightarrow> js_get v k = Inr x \<Longrightarrow> x = JUndefined"
  by (cases v) (auto simp add: has_field_def obj_get_absent)

lemma new_settings_lookup:
  "(m ++ map_of (entry_if b1 k1 v1 @ entry_if b2 k2 v2 @ entry_if b3 k3 v3 @ entry_if b4 k4 v4)) k
     = (if b1 \<and> k = k1 then Some v1 else if b2 \<and> k = k2 then Some v2
        else if b3 \<and> k = k3 then Some v3 else if b4 \<and> k = k4 then Some v4 else m k)"
  by (simp add: entry_if_def map_add_def)

lemma syncSettings_absent:
  shows "\<not> num_truthy (accounts s) \<Longrightarrow>
           settings (snd (syncSettings w s)) ''accounts'' = settings s ''accounts''"
    and "\<not> filled (firmware s) \<Longrightarrow>
           settings (snd (syncSettings w s)) ''firmware_type'' = settings s ''firmware_type''"
    and "\<not> has_field (field_of (contents s) ''wireless'') ''firmVer'' \<Longrightarrow>
           settings (snd (syncSettings w s)) ''wifi_firmware'' = settings s ''wifi_firmware''"
    and "\<not> has_field (field_of (contents s) ''mcu'') ''firmVer'' \<Longrightarrow>
           settings (snd (syncSettings w s)) ''mcu_firmware'' = settings s ''mcu_firmware''"
proof -
  note cases = syncSettings_settings [of w s]
  show "settings (snd (syncSettings w s)) ''accounts'' = settings s ''accounts''"
    if "\<not> num_truthy (accounts s)"
  proof -
    from cases show ?thesis
    proof (elim disjE exE conjE)
      fix wv mv
      assume "settings (snd (syncSettings w s)) =
            settings s ++ map_of
               (entry_if (num_truthy (accounts s)) ''accounts''
                   (JStr (case accounts s of Some n \<Rightarrow> string_of_jsnum n | None \<Rightarrow> ''null''))
                @ entry_if (filled (firmware s)) ''firmware_type'' (firmware s)
                @ entry_if (filled wv) ''wifi_firmware'' wv
                @ entry_if (filled mv) ''mcu_firmware'' mv)"
      then show ?thesis
        using that by (simp only: new_settings_lookup) simp
    qed simp
  qed
  show "settings (snd (syncSettings w s)) ''firmware_type'' = settings s ''firmware_type''"
    if "\<not> filled (firmware s)"
  proof -
    from cases show ?thesis
    proof (elim disjE exE conjE)
      fix wv mv
      assume "settings (snd (syncSettings w s)) =
            settings s ++ map_of
               (entry_if (num_truthy (accounts s)) ''accounts''
                   (JStr (case accounts s of Some n \<Rightarrow> string_of_jsnum n | None \<Rightarrow> ''null''))
                @ entry_if (filled (firmware s)) ''firmware_type'' (firmware s)
                @ entry_if (filled wv) ''wifi_firmware'' wv
                @ entry_if (filled mv) ''mcu_firmware'' mv)"
      then show ?thesis
        using that by (simp only: new_settings_lookup) simp
    qed simp
  qed
  show "settings (snd (syncSettings w s)) ''wifi_firmware'' = settings s ''wifi_firmware''"
    if "\<not> has_field (field_of (contents s) ''wireless'') ''firmVer''"
  proof -
    from cases show ?thesis
    proof (elim disjE exE conjE)
      fix wv mv
      assume "js_get (field_of (contents s) ''wireless'') ''firmVer'' = Inr wv"
      then have "wv = JUndefined"
        using that by (rule js_get_absent_field [rotated])
      then have "\<not> filled wv"
        by (simp add: filled_def)
      moreover assume "settings (snd (syncSettings w s)) =
            settings s ++ map_of
               (entry_if (num_truthy (accounts s)) ''accounts''
                   (JStr (case accounts s of Some n \<Rightarrow> string_of_jsnum n | None \<Rightarrow> ''null''))
                @ entry_if (filled (firmware s)) ''firmware_type'' (firmware s)
                @ entry_if (filled wv) ''wifi_firmware'' wv
                @ entry_if (filled mv) ''mcu_firmware'' mv)"
      ultimately show ?thesis
        by (simp only: new_settings_lookup) simp
    qed simp
  qed
  show "settings (snd (syncSettings w s)) ''mcu_firmware'' = settings s ''mcu_firmware''"
    if "\<not> has_field (field_of (contents s) ''mcu'') ''firmVer''"
  proof -
    from cases show ?thesis
    proof (elim disjE exE conjE)
      fix wv mv
      assume "js_get (field_of (contents s) ''mcu'') ''firmVer'' = Inr mv"
      then have "mv = JUndefined"
        using that by (rule js_get_absent_field [rotated])
      then have "\<not> filled mv"
        by (simp add: filled_def)
      moreover assume "settings (snd (syncSettings w s)) =
            settings s ++ map_of
               (entry_if (num_truthy (accounts s)) ''accounts''
                   (JStr (case accounts s of Some n \<Rightarrow> string_of_jsnum n | None \<Rightarrow> ''null''))
                @ entry_if (filled (firmware s)) ''firmware_type'' (firmware s)
                @ entry_if (filled wv) ''wifi_firmware'' wv
                @ entry_if (filled mv) ''mcu_firmware'' mv)"
      ultimately show ?thesis
        by (simp only: new_settings_lookup) simp
    qed simp
  qed
qed

lemma field_of_deleted:
  "k \<noteq> k' \<Longrightarrow> field_of (js_delete d k') k = field_of d k"
  by (cases d) (simp_all add: field_of_def obj_get_def map_of_filter_other)

lemma and_then_Returned_fst: "fst (and_then r f) = Returned \<Longrightarrow> fst r = Returned"
  by (cases "fst r") (simp_all add: and_then_def)

text \<open>
  C7, as the code has it. For every non-blank payload of a synchronisation pass (handed
  over or fetched): a capability whose field is absent from the payload's control block
  keeps its value over the pass, and so does the setting \<open>accounts\<close>, \<open>firmware_type\<close>,
  \<open>wifi_firmware\<close>, \<open>mcu_firmware\<close> when \<open>numOfAccount\<close>, \<open>firmType\<close>, \<open>wireless.firmVer\<close>,
  \<open>mcu.firmVer\<close> is absent from the payload.
\<close>

theorem absent_field_keeps_value:
  assumes "incoming w data s = Inr d" and "\<not> blank d"
  shows "((f, c) \<in> set capability_fields \<and> \<not> has_field (field_of d ''airconStat'') f \<longrightarrow>
            capabilities (snd (sync w data s)) c = capabilities s c)
       \<and> (\<not> has_field d ''numOfAccount'' \<longrightarrow>
            settings (snd (sync w data s)) ''accounts'' = settings s ''accounts'')
       \<and> (\<not> has_field d ''firmType'' \<longrightarrow>
            settings (snd (sync w data s)) ''firmware_type'' = settings s ''firmware_type'')
       \<and> (\<not> has_field (field_of d ''wireless'') ''firmVer'' \<longrightarrow>
            settings (snd (sync w data s)) ''wifi_firmware'' = settings s ''wifi_firmware'')
       \<and> (\<not> has_field (field_of d ''mcu'') ''firmVer'' \<longrightarrow>
            settings (snd (sync w data s)) ''mcu_firmware'' = settings s ''mcu_firmware'')"
proof -
  let ?s0 = "if truthy data then s else record_call GetAirconStat s"
  let ?r1 = "syncAirconStat w data s"
  let ?s2 = "snd (syncCapabilities w (snd ?r1))"
  have r1: "?r1 = store_payload d ?s0"
    using assms(1) by (rule syncAirconStat_stored)
  have stat: "airconStat (snd ?r1) = field_of d ''airconStat''"
    by (simp only: r1 store_payload_airconStat [OF assms(2)])
  have caps: "capabilities (snd (sync w data s)) c = capabilities s c"
    if "(f, c) \<in> set capability_fields" and "\<not> has_field (field_of d ''airconStat'') f"
  proof (cases "fst ?r1")
    case Returned
    have "capabilities ?s2 c = capabilities (snd ?r1) c"
      using that by (intro syncCapabilities_absent_field [where f = f]) (simp_all add: stat)
    then show ?thesis
      by (simp add: sync_capabilities_unfold Returned syncAirconStat_frame)
  next
    case (Threw e)
    then show ?thesis
      by (simp add: sync_capabilities_unfold)
  qed
  have sets: "settings (snd (sync w data s)) k = settings s k"
    if same: "fst ?r1 = Returned \<Longrightarrow>
                settings (snd (syncSettings w ?s2)) k = settings ?s2 k" for k
  proof (cases "fst (and_then ?r1 (syncCapabilities w))")
    case Returned
    then have "fst ?r1 = Returned"
      by (rule and_then_Returned_fst)
    then show ?thesis
      using same
      by (simp add: sync_settings_unfold Returned syncCapabilities_frame syncAirconStat_frame)
  next
    case (Threw e)
    then show ?thesis
      by (simp add: sync_settings_unfold)
  qed
  have stored: "accounts ?s2 = (if has_field d ''numOfAccount''
                                then Some (to_number (field_of d ''numOfAccount'')) else None)"
    "firmware ?s2 = (if has_field d ''firmType'' then field_of d ''firmType'' else JNull)"
    "contents ?s2 = js_delete d ''airconStat''"
    if "fst ?r1 = Returned"
    using that store_payload_stored [OF assms(2), of ?s0]
    by (simp_all add: syncCapabilities_frame r1)
  have acc: "settings (snd (sync w data s)) ''accounts'' = settings s ''accounts''"
    if "\<not> has_field d ''numOfAccount''"
    by (rule sets, rule syncSettings_absent(1)) (simp add: stored that)
  have fw: "settings (snd (sync w data s)) ''firmware_type'' = settings s ''firmware_type''"
    if "\<not> has_field d ''firmType''"
    by (rule sets, rule syncSettings_absent(2)) (simp add: stored that filled_def)
  have wifi: "settings (snd (sync w data s)) ''wifi_firmware'' = settings s ''wifi_firmware''"
    if "\<not> has_field (field_of d ''wireless'') ''firmVer''"
    by (rule sets, rule syncSettings_absent(3)) (simp add: stored that field_of_deleted)
  have mcu: "settings (snd (sync w data s)) ''mcu_firmware'' = settings s ''mcu_firmware''"
    if "\<not> has_field (field_of d ''mcu'') ''firmVer''"
    by (rule sets, rule syncSettings_absent(4)) (simp add: stored that field_of_deleted)
  from caps acc fw wifi mcu show ?thesis
    by blast
qed

theorem absent_field_keeps_value_witness:
  "capabilities (snd (sync (demo_world (Inr JNull) (Inr JNull) None)
       (JObj [(''airconStat'', JObj [(''operation'', JBool True)]),
              (''wireless'', JObj [(''firmVer'', JStr ''1.0'')]),
              (''mcu'', JObj [(''firmVer'', JStr ''2.0'')])])
       ((fresh_device True)\<lparr>capabilities := [''fan_speed'' \<mapsto> JNum 1],
                              settings := [''firmware_type'' \<mapsto> JStr ''WF-RAC'']\<rparr>)))
     ''fan_speed'' = Some (JNum 1)
   \<and> settings (snd (sync (demo_world (Inr JNull) (Inr JNull) None)
       (JObj [(''airconStat'', JObj [(''operation'', JBool True)]),
              (''wireless'', JObj [(''firmVer'', JStr ''1.0'')]),
              (''mcu'', JObj [(''firmVer'', JStr ''2.0'')])])
       ((fresh_device True)\<lparr>capabilities := [''fan_speed'' \<mapsto> JNum 1],
                              settings := [''firmware_type'' \<mapsto> JStr ''WF-RAC'']\<rparr>)))
     ''firmware_type'' = Some (JStr ''WF-RAC'')"
proof -
  let ?w = "demo_world (Inr JNull) (Inr JNull) None"
  let ?d = "JObj [(''airconStat'', JObj [(''operation'', JBool True)]),
              (''wireless'', JObj [(''firmVer'', JStr ''1.0'')]),
              (''mcu'', JObj [(''firmVer'', JStr ''2.0'')])]"
  let ?s = "(fresh_device True)\<lparr>capabilities := [''fan_speed'' \<mapsto> JNum 1],
                              settings := [''firmware_type'' \<mapsto> JStr ''WF-RAC'']\<rparr>"
  have inc: "incoming ?w ?d ?s = Inr ?d" and nb: "\<not> blank ?d"
    by (simp_all add: incoming_def)
  have "(''airFlow'', ''fan_speed'') \<in> set capability_fields
        \<and> \<not> has_field (field_of ?d ''airconStat'') ''airFlow''"
    and "\<not> has_field ?d ''firmType''"
    by (simp_all add: capability_fields_def has_field_def field_of_def obj_get_def)
  with absent_field_keeps_value [OF inc nb, of "''airFlow''" "''fan_speed''"]
  have "capabilities (snd (sync ?w ?d ?s)) ''fan_speed'' = capabilities ?s ''fan_speed''"
    and "settings (snd (sync ?w ?d ?s)) ''firmware_type'' = settings ?s ''firmware_type''"
    by blast+
  then show ?thesis
    by simp
qed

text \<open>
  C7 as stated fails on a blank payload. A first pass sets \<open>onoff\<close> to \<open>true\<close> and registers
  the device. An update to \<open>operation: false\<close> merges the patch into the control state
  and fails in the send, so the capability stays \<open>true\<close>. The next pass fetches the blank
  payload \<open>{}\<close>, which has no field \<open>operation\<close>; the retained control state is applied
  again and \<open>onoff\<close> becomes \<open>false\<close>.
\<close>

theorem blank_payload_changes_capability:
  "capabilities
     (snd (updateDevice
        (demo_world (Inr (full_payload (JObj [(''operation'', JBool True)]) 1 ''WF-RAC''))
           (Inl (Error ''timeout'')) None)
        [(''operation'', JBool False)]
        (snd (sync (demo_world (Inr JNull) (Inr JNull) None)
           (full_payload (JObj [(''operation'', JBool True)]) 1 ''WF-RAC'')
           (fresh_device False))))) ''onoff'' = Some (JBool True)
   \<and> incoming (demo_world (Inr (JObj [])) (Inr JNull) None) JNull
       (snd (updateDevice
        (demo_world (Inr (full_payload (JObj [(''operation'', JBool True)]) 1 ''WF-RAC''))
           (Inl (Error ''timeout'')) None)
        [(''operation'', JBool False)]
        (snd (sync (demo_world (Inr JNull) (Inr JNull) None)
           (full_payload (JObj [(''operation'', JBool True)]) 1 ''WF-RAC'')
           (fresh_device False))))) = Inr (JObj [])
   \<and> capabilities
     (snd (sync (demo_world (Inr (JObj [])) (Inr JNull) None) JNull
       (snd (updateDevice
        (demo_world (Inr (full_payload (JObj [(''operation'', JBool True)]) 1 ''WF-RAC''))
           (Inl (Error ''timeout'')) None)
        [(''operation'', JBool False)]
        (snd (sync (demo_world (Inr JNull) (Inr JNull) None)
           (full_payload (JObj [(''operation'', JBool True)]) 1 ''WF-RAC'')
           (fresh_device False))))))) ''onoff'' = Some (JBool False)"
  by (simp add: incoming_def update_defs step_defs demo_defs host_defs)

subsection \<open>The control state\<close>






end
